theory Spec2Isabelle
  imports Main "HOL-Library.Word" "HOL-Library.Sublist"
begin

section \<open>JavaScript strings and arrays\<close>

text \<open>
  A JavaScript string is a sequence of UTF-16 code units. ASCII literals of the source are
  written \<open>str ''...''\<close>; the Vietnamese literals are given by their code units.
\<close>

type_synonym jschar = "16 word"
type_synonym jsstring = "jschar list"

definition str :: "string \<Rightarrow> jsstring" where
  "str cs = map of_char cs"

text \<open>
  \<^verbatim>\<open>String.prototype.trim\<close> strips WhiteSpace and LineTerminator code points
  from both ends: TAB, VT, FF, SP, NBSP, ZWNBSP, the space separators, LF, CR, LS, PS.
\<close>

definition isWhiteSpace :: "jschar \<Rightarrow> bool" where
  "isWhiteSpace c \<longleftrightarrow>
     c \<in> set [9, 10, 11, 12, 13, 32, 160, 5760, 8232, 8233, 8239, 8287, 12288, 65279]
     \<or> (8192 \<le> c \<and> c \<le> 8202)"

definition trim :: "jsstring \<Rightarrow> jsstring" where
  "trim s = rev (dropWhile isWhiteSpace (rev (dropWhile isWhiteSpace s)))"

text \<open>\<^verbatim>\<open>s.startsWith(p)\<close> is \<open>prefix p s\<close>; \<^verbatim>\<open>s.includes(p)\<close>:\<close>

fun js_includes :: "jsstring \<Rightarrow> jsstring \<Rightarrow> bool" where
  "js_includes [] p = (p = [])"
| "js_includes (c # cs) p = (prefix p (c # cs) \<or> js_includes cs p)"

text \<open>\<^verbatim>\<open>Array.prototype.join\<close> on an array of strings.\<close>

fun join :: "jsstring list \<Rightarrow> jsstring \<Rightarrow> jsstring" where
  "join [] sep = []"
| "join [x] sep = x"
| "join (x # y # ys) sep = x @ sep @ join (y # ys) sep"

text \<open>\<^verbatim>\<open>String.prototype.split\<close> with a separator of one code unit.\<close>

fun split :: "jsstring \<Rightarrow> jschar \<Rightarrow> jsstring list" where
  "split [] sep = [[]]"
| "split (c # cs) sep =
     (if c = sep then [] # split cs sep
      else (case split cs sep of [] \<Rightarrow> [[c]] | p # ps \<Rightarrow> (c # p) # ps))"

text \<open>Reading an array at an index: \<^verbatim>\<open>undefined\<close> out of range.\<close>

definition at_index :: "'a list \<Rightarrow> nat \<Rightarrow> 'a option" where
  "at_index xs i = (if i < length xs then Some (xs ! i) else None)"

section \<open>The data model (types.ts)\<close>

datatype ConversationState =
  IDLE | CONNECTING | LISTENING | PROCESSING | SPEAKING | TYPING | ERROR

record GroundingSource =
  uri :: jsstring
  title :: jsstring

text \<open>
  What the field \<^verbatim>\<open>web\<close> of a grounding chunk holds at run time: \<^verbatim>\<open>undefined\<close>,
  \<^verbatim>\<open>null\<close>, or an object whose \<^verbatim>\<open>uri\<close> and \<^verbatim>\<open>title\<close> may each be missing.
  The type guard of the source (\<^verbatim>\<open>source is GroundingSource\<close>) is an assertion for the
  compiler only, so the \<^verbatim>\<open>sources\<close> of an entry hold such values as they came.
\<close>

datatype WebValue = Undefined | Null | WebObject "jsstring option" "jsstring option"

text \<open>The value read as the declared \<open>GroundingSource\<close>: there is one when both fields are present.\<close>

fun as_GroundingSource :: "WebValue \<Rightarrow> GroundingSource option" where
  "as_GroundingSource (WebObject (Some u) (Some t)) = Some \<lparr> uri = u, title = t \<rparr>"
| "as_GroundingSource w = None"

record UploadedFile =
  name :: jsstring

datatype Source = user | gemini

definition source_str :: "Source \<Rightarrow> jsstring" where
  "source_str s = (case s of user \<Rightarrow> str ''user'' | gemini \<Rightarrow> str ''gemini'')"

record TranscriptEntry =
  source :: Source
  "text" :: jsstring
  isTyping :: "bool option"
  imageUrl :: "jsstring option"
  sources :: "WebValue list option"
  files :: "UploadedFile list option"

datatype Theme = light | dark
datatype Voice = Zephyr | Puck | Charon | Kore | Fenrir
datatype TextModel = gemini_2_5_flash | gemini_2_5_pro
datatype ChatMode = default_mode | search_mode | image_mode | reasoning_mode

definition textModel_str :: "TextModel \<Rightarrow> jsstring" where
  "textModel_str m =
     (case m of gemini_2_5_flash \<Rightarrow> str ''gemini-2.5-flash''
              | gemini_2_5_pro \<Rightarrow> str ''gemini-2.5-pro'')"

record Settings =
  systemPrompt :: jsstring
  voice :: Voice
  textModel :: TextModel
  theme :: Theme
  sendOnEnter :: bool

section \<open>The preference store (hooks/useSettings.ts)\<close>

text \<open>\<^verbatim>\<open>Partial<Settings>\<close>: every field may be absent.\<close>

record PartialSettings =
  systemPrompt_opt :: "jsstring option"
  voice_opt :: "Voice option"
  textModel_opt :: "TextModel option"
  theme_opt :: "Theme option"
  sendOnEnter_opt :: "bool option"

text \<open>The object spread \<^verbatim>\<open>{ ...prev, ...newSettings }\<close>.\<close>

definition spread :: "Settings \<Rightarrow> PartialSettings \<Rightarrow> Settings" where
  "spread prev newSettings =
     \<lparr> systemPrompt = (case systemPrompt_opt newSettings of None \<Rightarrow> systemPrompt prev | Some v \<Rightarrow> v),
       voice = (case voice_opt newSettings of None \<Rightarrow> voice prev | Some v \<Rightarrow> v),
       textModel = (case textModel_opt newSettings of None \<Rightarrow> textModel prev | Some v \<Rightarrow> v),
       theme = (case theme_opt newSettings of None \<Rightarrow> theme prev | Some v \<Rightarrow> v),
       sendOnEnter = (case sendOnEnter_opt newSettings of None \<Rightarrow> sendOnEnter prev | Some v \<Rightarrow> v) \<rparr>"

definition defaultSettings :: Settings where
  "defaultSettings =
     \<lparr> systemPrompt =
         [66, 7841, 110, 32, 108, 224, 32, 109, 7897, 116, 32, 116, 114, 7907, 32, 108, 253, 32,
          65, 73, 32, 116, 104, 226, 110, 32, 116, 104, 105, 7879, 110, 32, 118, 224, 32, 104,
          7919, 117, 32, 237, 99, 104, 46, 32, 72, 227, 121, 32, 103, 105, 7919, 32, 99, 104, 111,
          32, 99, 226, 117, 32, 116, 114, 7843, 32, 108, 7901, 105, 32, 99, 7911, 97, 32, 98, 7841,
          110, 32, 110, 103, 7855, 110, 32, 103, 7885, 110, 32, 118, 224, 32, 109, 97, 110, 103,
          32, 116, 237, 110, 104, 32, 116, 114, 242, 32, 99, 104, 117, 121, 7879, 110, 46],
       voice = Zephyr,
       textModel = gemini_2_5_flash,
       theme = dark,
       sendOnEnter = True \<rparr>"

text \<open>
  The item under the key \<^verbatim>\<open>gemini-audio-app-settings\<close>, seen through what
  \<^verbatim>\<open>getItem\<close> and \<^verbatim>\<open>JSON.parse\<close> make of it: no item (or the empty
  string), a string that \<^verbatim>\<open>JSON.parse\<close> rejects, or a string that parses to an
  object with some of the fields of \<open>Settings\<close>. Both storage calls may throw; the source
  catches and logs either.
\<close>

datatype StoredItem = Absent | Unparseable | Parsed PartialSettings

record LocalStorage =
  stored :: StoredItem
  getItem_throws :: bool
  setItem_throws :: bool

text \<open>\<^verbatim>\<open>JSON.stringify(settings)\<close>: a string that parses back to all five fields.\<close>

definition stringify :: "Settings \<Rightarrow> StoredItem" where
  "stringify s =
     Parsed \<lparr> systemPrompt_opt = Some (systemPrompt s), voice_opt = Some (voice s),
              textModel_opt = Some (textModel s), theme_opt = Some (theme s),
              sendOnEnter_opt = Some (sendOnEnter s) \<rparr>"

text \<open>The initialiser of the settings state: what a (re)load of the page computes.\<close>

definition load_settings :: "LocalStorage \<Rightarrow> Settings" where
  "load_settings ls =
     (if getItem_throws ls then defaultSettings
      else (case stored ls of
              Absent \<Rightarrow> defaultSettings
            | Unparseable \<Rightarrow> defaultSettings
            | Parsed storedSettings \<Rightarrow> spread defaultSettings storedSettings))"

text \<open>The effect that runs whenever the settings change.\<close>

definition persist_settings :: "LocalStorage \<Rightarrow> Settings \<Rightarrow> LocalStorage" where
  "persist_settings ls s =
     (if setItem_throws ls then ls else ls\<lparr>stored := stringify s\<rparr>)"

definition updateSettings :: "Settings \<Rightarrow> PartialSettings \<Rightarrow> Settings" where
  "updateSettings prev newSettings = spread prev newSettings"

text \<open>The argument \<^verbatim>\<open>{theme: 'light'}\<close>.\<close>

definition theme_light :: PartialSettings where
  "theme_light =
     \<lparr> systemPrompt_opt = None, voice_opt = None, textModel_opt = None,
       theme_opt = Some light, sendOnEnter_opt = None \<rparr>"

section \<open>Export of the transcript (App.tsx, handleExportChat)\<close>

definition export_entry :: "TranscriptEntry \<Rightarrow> jsstring" where
  "export_entry entry =
     (let content = str ''['' @ source_str (source entry) @ str '']\<newline>'';
          content = (case files entry of
                       None \<Rightarrow> content
                     | Some fs \<Rightarrow>
                         if length fs > 0
                         then content @ str ''Files: '' @ join (map name fs) (str '', '')
                                @ str ''\<newline>''
                         else content)
      in content @ text entry)"

definition exportChat :: "TranscriptEntry list \<Rightarrow> jsstring" where
  "exportChat transcript = join (map export_entry transcript) (str ''\<newline>\<newline>'')"

section \<open>Sending a message (App.tsx, handleSend)\<close>

subsection \<open>Files, requests and responses\<close>

text \<open>
  A value that is thrown or that rejects a promise: an instance of \<^verbatim>\<open>Error\<close> with
  its message, or anything else.
\<close>

datatype Thrown = Error jsstring | NonError

text \<open>
  A browser \<^verbatim>\<open>File\<close>: its name, its media type and what the two
  \<^verbatim>\<open>FileReader\<close> operations of the source yield for it (the text, the data URL,
  or a rejection).
\<close>

record File =
  file_name :: jsstring
  file_type :: jsstring
  readAsText :: "Thrown + jsstring"
  readAsDataURL :: "Thrown + jsstring"

record InlineData =
  mimeType :: jsstring
  data :: "jsstring option"

datatype Part = TextPart jsstring | InlineDataPart InlineData

datatype Contents = PlainText jsstring | PartsBody "Part list"

datatype Config = NoConfig | GoogleSearchTool | ResponseModalitiesImage | SystemInstruction jsstring

record Request =
  model :: jsstring
  contents :: Contents
  config :: Config

record GroundingChunk =
  web :: WebValue

record GroundingMetadata =
  groundingChunks :: "GroundingChunk list option"

record ResponsePart =
  inlineData :: "InlineData option"

record Content =
  parts :: "ResponsePart list option"

record Candidate =
  groundingMetadata :: "GroundingMetadata option"
  content :: "Content option"

record Response =
  response_text :: jsstring
  candidates :: "Candidate list option"

text \<open>
  The remote collaborator: constructing the client may throw, and each
  \<^verbatim>\<open>generateContent\<close> call resolves to a response or rejects.
\<close>

record Env =
  newGoogleGenAI :: "Thrown option"
  generateContent :: "Request \<Rightarrow> Thrown + Response"

record AppState =
  transcript :: "TranscriptEntry list"
  conversationState :: ConversationState
  chatMode :: ChatMode
  inputText :: jsstring
  uploadedFiles :: "File list"
  isKeySelected :: bool

subsection \<open>The literals of the source\<close>

definition SUPPORTED_IMAGE_MIMES :: "jsstring list" where
  "SUPPORTED_IMAGE_MIMES =
     [str ''image/png'', str ''image/jpeg'', str ''image/webp'', str ''image/heic'',
      str ''image/heif'']"

text \<open>The word for "error" and a colon, at the head of every error entry.\<close>

definition msg_error_prefix :: jsstring where
  "msg_error_prefix = [76, 7895, 105, 58, 32]"

text \<open>The text before and after the list of names in the unsupported-type message.\<close>

definition msg_unsupported_before :: jsstring where
  "msg_unsupported_before =
     [76, 7895, 105, 58, 32, 76, 111, 7841, 105, 32, 116, 7879, 112, 32, 107, 104, 244, 110,
      103, 32, 273, 432, 7907, 99, 32, 104, 7895, 32, 116, 114, 7907, 32, 99, 104, 111, 58, 32]"

definition msg_unsupported_after :: jsstring where
  "msg_unsupported_after =
     [46, 32, 67, 104, 7881, 32, 104, 7895, 32, 116, 114, 7907, 32, 99, 225, 99, 32, 116, 7879,
      112, 32, 104, 236, 110, 104, 32, 7843, 110, 104, 32, 118, 224, 32, 118, 259, 110, 32, 98,
      7843, 110, 46]"

text \<open>The text before the prompt in the interim entry of image mode (after it: \<^verbatim>\<open>"...\<close>).\<close>

definition msg_generating_before :: jsstring where
  "msg_generating_before =
     [272, 97, 110, 103, 32, 116, 7841, 111, 32, 7843, 110, 104, 32, 99, 104, 111, 58, 32, 34]"

definition msg_image_failed :: jsstring where
  "msg_image_failed =
     [75, 104, 244, 110, 103, 32, 116, 104, 7875, 32, 116, 7841, 111, 32, 7843, 110, 104, 46,
      32, 86, 117, 105, 32, 108, 242, 110, 103, 32, 116, 104, 7917, 32, 108, 7841, 105, 46]"

definition msg_unknown_error :: jsstring where
  "msg_unknown_error =
     [272, 227, 32, 120, 7843, 121, 32, 114, 97, 32, 108, 7895, 105, 32, 107, 104, 244, 110,
      103, 32, 120, 225, 99, 32, 273, 7883, 110, 104, 46]"

definition msg_invalid_key :: jsstring where
  "msg_invalid_key =
     [76, 7895, 105, 58, 32, 75, 104, 243, 97, 32, 65, 80, 73, 32, 107, 104, 244, 110, 103, 32,
      104, 7907, 112, 32, 108, 7879, 46, 32, 86, 117, 105, 32, 108, 242, 110, 103, 32, 99, 104,
      7885, 110, 32, 108, 7841, 105, 32, 107, 104, 243, 97, 46]"

text \<open>An optional string inside a template literal.\<close>

definition template_str :: "jsstring option \<Rightarrow> jsstring" where
  "template_str v = (case v of None \<Rightarrow> str ''undefined'' | Some s \<Rightarrow> s)"

subsection \<open>Transcript entries\<close>

text \<open>The entry \<^verbatim>\<open>{ source: 'gemini', text }\<close>.\<close>

definition gemini_entry :: "jsstring \<Rightarrow> TranscriptEntry" where
  "gemini_entry t =
     \<lparr> source = gemini, text = t, isTyping = None, imageUrl = None, sources = None,
       files = None \<rparr>"

definition geminiTypingMessage :: TranscriptEntry where
  "geminiTypingMessage =
     \<lparr> source = gemini, text = [], isTyping = Some True, imageUrl = None, sources = None,
       files = None \<rparr>"

definition userMessage :: "AppState \<Rightarrow> TranscriptEntry" where
  "userMessage s =
     \<lparr> source = user, text = inputText s, isTyping = None, imageUrl = None, sources = None,
       files = Some (map (\<lambda>f. \<lparr> name = file_name f \<rparr>) (uploadedFiles s)) \<rparr>"

text \<open>The update \<^verbatim>\<open>prev => [...prev.slice(0, -1), entry]\<close>.\<close>

definition replace_last :: "TranscriptEntry list \<Rightarrow> TranscriptEntry \<Rightarrow> TranscriptEntry list" where
  "replace_last prev entry = butlast prev @ [entry]"

text \<open>What the renderer tests: \<^verbatim>\<open>entry.isTyping\<close> is truthy.\<close>

definition is_placeholder :: "TranscriptEntry \<Rightarrow> bool" where
  "is_placeholder entry \<longleftrightarrow> isTyping entry = Some True"

subsection \<open>Classifying the attached files\<close>

definition fileToBase64 :: "File \<Rightarrow> Thrown + InlineData" where
  "fileToBase64 file =
     (case readAsDataURL file of
        Inl error \<Rightarrow> Inl error
      | Inr result \<Rightarrow>
          Inr \<lparr> mimeType = file_type file, data = at_index (split result 44) 1 \<rparr>)"

definition readFileAsText :: "File \<Rightarrow> Thrown + jsstring" where
  "readFileAsText file = readAsText file"

definition file_block :: "jsstring \<Rightarrow> jsstring \<Rightarrow> jsstring" where
  "file_block fname textContent =
     str ''--- START OF FILE: '' @ fname @ str '' ---\<newline>'' @ textContent
       @ str ''\<newline>--- END OF FILE: '' @ fname @ str '' ---\<newline>\<newline>''"

record Collected =
  textParts :: "jsstring list"
  imageParts :: "InlineData list"
  unsupportedFiles :: "jsstring list"

text \<open>The loop over \<^verbatim>\<open>filesToProcess\<close>; a rejected read leaves the loop.\<close>

fun process_files :: "File list \<Rightarrow> Collected \<Rightarrow> Thrown + Collected" where
  "process_files [] acc = Inr acc"
| "process_files (file # rest) acc =
     (if file_type file \<in> set SUPPORTED_IMAGE_MIMES then
        (case fileToBase64 file of
           Inl error \<Rightarrow> Inl error
         | Inr part \<Rightarrow> process_files rest (acc\<lparr>imageParts := imageParts acc @ [part]\<rparr>))
      else if prefix (str ''text/'') (file_type file) then
        (case readFileAsText file of
           Inl error \<Rightarrow> Inl error
         | Inr textContent \<Rightarrow>
             process_files rest
               (acc\<lparr>textParts := file_block (file_name file) textContent # textParts acc\<rparr>))
      else process_files rest (acc\<lparr>unsupportedFiles := unsupportedFiles acc @ [file_name file]\<rparr>))"

subsection \<open>The phases of one send\<close>

text \<open>
  \<^verbatim>\<open>handleSend\<close> is asynchronous. Its run is cut where it awaits: the synchronous
  start (\<open>send_begin\<close>), the part up to the remote call (\<open>send_prepare\<close>), and the part
  after the call has settled (\<open>send_complete\<close>). What the later parts read from the
  variables they close over is the \<open>Closure\<close>.
\<close>

record Closure =
  closure_inputText :: jsstring
  closure_files :: "File list"
  closure_chatMode :: ChatMode
  closure_settings :: Settings

definition send_rejected :: "AppState \<Rightarrow> bool" where
  "send_rejected s \<longleftrightarrow>
     (trim (inputText s) = [] \<and> length (uploadedFiles s) = 0)
     \<or> conversationState s = PROCESSING"

definition send_begin :: "Settings \<Rightarrow> AppState \<Rightarrow> (AppState \<times> Closure) option" where
  "send_begin settings s =
     (if send_rejected s then None
      else
        (let newTranscript = transcript s @ [userMessage s];
             closure = \<lparr> closure_inputText = inputText s, closure_files = uploadedFiles s,
                      closure_chatMode = chatMode s, closure_settings = settings \<rparr>
         in Some (s\<lparr> transcript := newTranscript @ [geminiTypingMessage],
                     inputText := [],
                     uploadedFiles := [],
                     conversationState := PROCESSING \<rparr>, closure)))"

text \<open>The \<^verbatim>\<open>catch\<close> block followed by the \<^verbatim>\<open>finally\<close> block.\<close>

definition credential_error :: "jsstring \<Rightarrow> bool" where
  "credential_error errorMessage \<longleftrightarrow>
     js_includes errorMessage (str ''API key not valid'')
     \<or> js_includes errorMessage (str ''Requested entity was not found'')"

definition error_message :: "Thrown \<Rightarrow> jsstring" where
  "error_message error = (case error of Error message \<Rightarrow> message | NonError \<Rightarrow> msg_unknown_error)"

definition on_error :: "Thrown \<Rightarrow> AppState \<Rightarrow> AppState" where
  "on_error error s =
     (let errorMessage = error_message error;
          s' = (if credential_error errorMessage
                then s\<lparr> transcript := replace_last (transcript s) (gemini_entry msg_invalid_key),
                        isKeySelected := False \<rparr>
                else s\<lparr> transcript :=
                          replace_last (transcript s)
                            (gemini_entry (msg_error_prefix @ errorMessage)) \<rparr>)
      in s'\<lparr> conversationState := IDLE \<rparr>)"

definition build_contents :: "Collected \<Rightarrow> Contents" where
  "build_contents acc =
     (let combinedText = join (textParts acc) []
      in if length (imageParts acc) > 0
         then PartsBody (TextPart combinedText # map InlineDataPart (imageParts acc))
         else PlainText combinedText)"

definition send_prepare :: "Thrown option \<Rightarrow> Closure \<Rightarrow> AppState \<Rightarrow> AppState \<times> Request option" where
  "send_prepare client closure s =
     (case client of
        Some error \<Rightarrow> (on_error error s, None)
      | None \<Rightarrow>
         (case process_files (closure_files closure)
                 \<lparr> textParts = [closure_inputText closure], imageParts = [], unsupportedFiles = [] \<rparr> of
            Inl error \<Rightarrow> (on_error error s, None)
          | Inr acc \<Rightarrow>
              if length (unsupportedFiles acc) > 0 then
                (let errorMessage =
                       msg_unsupported_before @ join (unsupportedFiles acc) (str '', '')
                         @ msg_unsupported_after
                 in (s\<lparr> transcript := replace_last (transcript s) (gemini_entry errorMessage),
                        conversationState := IDLE \<rparr>, None))
              else
                (let contents = build_contents acc in
                  (case closure_chatMode closure of
                     search_mode \<Rightarrow>
                       (s, Some \<lparr> model = str ''gemini-2.5-flash'', contents = contents,
                                  config = GoogleSearchTool \<rparr>)
                   | image_mode \<Rightarrow>
                       (s\<lparr> transcript :=
                             replace_last (transcript s)
                               (gemini_entry (msg_generating_before @ closure_inputText closure
                                                @ str [CHR 0x22] @ str ''...'')) \<rparr>,
                        Some \<lparr> model = str ''gemini-2.5-flash-image'',
                               contents = PartsBody [TextPart (closure_inputText closure)],
                               config = ResponseModalitiesImage \<rparr>)
                   | reasoning_mode \<Rightarrow>
                       (s, Some \<lparr> model = str ''gemini-2.5-pro'', contents = contents,
                                  config = NoConfig \<rparr>)
                   | default_mode \<Rightarrow>
                       (s, Some \<lparr> model = (if length (imageParts acc) > 0
                                           then str ''gemini-2.5-flash''
                                           else textModel_str (textModel (closure_settings closure))),
                                  contents = contents,
                                  config = SystemInstruction (systemPrompt (closure_settings closure)) \<rparr>)))))"

text \<open>The chain \<^verbatim>\<open>response.candidates?.[0]\<close>.\<close>

definition first_candidate :: "Response \<Rightarrow> Candidate option" where
  "first_candidate response =
     (case candidates response of None \<Rightarrow> None | Some cs \<Rightarrow> at_index cs 0)"

text \<open>
  The cited sources of search mode:
  \<^verbatim>\<open>groundingChunks?.map(chunk => chunk.web).filter(source => source !== undefined) ?? []\<close>.
\<close>

definition extract_sources :: "Response \<Rightarrow> WebValue list" where
  "extract_sources response =
     (case Option.bind (Option.bind (first_candidate response) groundingMetadata) groundingChunks of
        None \<Rightarrow> []
      | Some chunks \<Rightarrow> filter (\<lambda>source. source \<noteq> Undefined) (map web chunks))"

text \<open>The first part of the response with inline data, in image mode.\<close>

definition find_image_part :: "Response \<Rightarrow> ResponsePart option" where
  "find_image_part response =
     (case Option.bind (Option.bind (first_candidate response) content) parts of
        None \<Rightarrow> None
      | Some ps \<Rightarrow> List.find (\<lambda>part. inlineData part \<noteq> None) ps)"

definition final_entry :: "ChatMode \<Rightarrow> Response \<Rightarrow> TranscriptEntry" where
  "final_entry mode response =
     (case mode of
        search_mode \<Rightarrow>
          (gemini_entry (response_text response))\<lparr> sources := Some (extract_sources response) \<rparr>
      | image_mode \<Rightarrow>
          (case Option.bind (find_image_part response) inlineData of
             Some blob \<Rightarrow>
               (gemini_entry [])\<lparr> imageUrl :=
                  Some (str ''data:'' @ mimeType blob @ str '';base64,'' @ template_str (data blob)) \<rparr>
           | None \<Rightarrow> gemini_entry msg_image_failed)
      | reasoning_mode \<Rightarrow> gemini_entry (response_text response)
      | default_mode \<Rightarrow> gemini_entry (response_text response))"

definition send_complete :: "Closure \<Rightarrow> Thrown + Response \<Rightarrow> AppState \<Rightarrow> AppState" where
  "send_complete closure outcome s =
     (case outcome of
        Inl error \<Rightarrow> on_error error s
      | Inr response \<Rightarrow>
          s\<lparr> transcript := replace_last (transcript s) (final_entry (closure_chatMode closure) response),
             conversationState := IDLE \<rparr>)"

text \<open>
  One send run from its start to its end with nothing in between: the final state and the
  remote calls made, in order.
\<close>

definition handleSend :: "Env \<Rightarrow> Settings \<Rightarrow> AppState \<Rightarrow> AppState \<times> Request list" where
  "handleSend env settings s =
     (case send_begin settings s of
        None \<Rightarrow> (s, [])
      | Some (s1, closure) \<Rightarrow>
          (case send_prepare (newGoogleGenAI env) closure s1 of
             (s2, None) \<Rightarrow> (s2, [])
           | (s2, Some request) \<Rightarrow>
               (send_complete closure (generateContent env request) s2, [request])))"

subsection \<open>A session: events interleaved with the sends in flight\<close>

datatype Stage = Started | Awaiting Request

record Session =
  app :: AppState
  current_settings :: Settings
  in_flight :: "(Closure \<times> Stage) list"
  calls :: "Request list"

definition remove_at :: "nat \<Rightarrow> 'a list \<Rightarrow> 'a list" where
  "remove_at i xs = take i xs @ drop (Suc i) xs"

text \<open>
  The events of the page: the handlers of the composer, of the mode buttons and of the
  settings panel, a click on send, and the progress of a send in flight (the \<open>i\<close>-th one)
  with what the outside world answered. \<open>RemoveFile i\<close> removes the file object shown at
  position \<open>i\<close> (the source compares file objects by identity). A send without files runs
  from its start to the remote call in one piece; the session lets other events come in
  between, which only adds interleavings.
\<close>

datatype Event =
    TypeText jsstring
  | AttachFiles "File list"
  | RemoveFile nat
  | SetChatMode ChatMode
  | ClearHistory
  | SelectKey
  | UpdateSettings PartialSettings
  | Send
  | Prepare nat "Thrown option"
  | Settle nat "Thrown + Response"

fun fire :: "Event \<Rightarrow> Session \<Rightarrow> Session" where
  "fire (TypeText t) \<sigma> = \<sigma>\<lparr> app := (app \<sigma>)\<lparr> inputText := t \<rparr> \<rparr>"
| "fire (AttachFiles fs) \<sigma> = \<sigma>\<lparr> app := (app \<sigma>)\<lparr> uploadedFiles := uploadedFiles (app \<sigma>) @ fs \<rparr> \<rparr>"
| "fire (RemoveFile i) \<sigma> =
     \<sigma>\<lparr> app := (app \<sigma>)\<lparr> uploadedFiles := remove_at i (uploadedFiles (app \<sigma>)) \<rparr> \<rparr>"
| "fire (SetChatMode m) \<sigma> = \<sigma>\<lparr> app := (app \<sigma>)\<lparr> chatMode := m \<rparr> \<rparr>"
| "fire ClearHistory \<sigma> = \<sigma>\<lparr> app := (app \<sigma>)\<lparr> transcript := [] \<rparr> \<rparr>"
| "fire SelectKey \<sigma> = \<sigma>\<lparr> app := (app \<sigma>)\<lparr> isKeySelected := True \<rparr> \<rparr>"
| "fire (UpdateSettings p) \<sigma> = \<sigma>\<lparr> current_settings := updateSettings (current_settings \<sigma>) p \<rparr>"
| "fire Send \<sigma> =
     (case send_begin (current_settings \<sigma>) (app \<sigma>) of
        None \<Rightarrow> \<sigma>
      | Some (s1, closure) \<Rightarrow> \<sigma>\<lparr> app := s1, in_flight := in_flight \<sigma> @ [(closure, Started)] \<rparr>)"
| "fire (Prepare i client) \<sigma> =
     (case at_index (in_flight \<sigma>) i of
        Some (closure, Started) \<Rightarrow>
          (case send_prepare client closure (app \<sigma>) of
             (s2, None) \<Rightarrow> \<sigma>\<lparr> app := s2, in_flight := remove_at i (in_flight \<sigma>) \<rparr>
           | (s2, Some request) \<Rightarrow>
               \<sigma>\<lparr> app := s2, in_flight := (in_flight \<sigma>)[i := (closure, Awaiting request)],
                  calls := calls \<sigma> @ [request] \<rparr>)
      | _ \<Rightarrow> \<sigma>)"
| "fire (Settle i outcome) \<sigma> =
     (case at_index (in_flight \<sigma>) i of
        Some (closure, Awaiting request) \<Rightarrow>
          \<sigma>\<lparr> app := send_complete closure outcome (app \<sigma>), in_flight := remove_at i (in_flight \<sigma>) \<rparr>
      | _ \<Rightarrow> \<sigma>)"

definition initial :: "Settings \<Rightarrow> Session" where
  "initial settings =
     \<lparr> app = \<lparr> transcript = [], conversationState = IDLE, chatMode = default_mode,
               inputText = [], uploadedFiles = [], isKeySelected = False \<rparr>,
       current_settings = settings,
       in_flight = [],
       calls = [] \<rparr>"

inductive reachable :: "Session \<Rightarrow> bool" where
  start: "reachable (initial settings)"
| step: "reachable \<sigma> \<Longrightarrow> reachable (fire e \<sigma>)"

subsection \<open>Observations used to state the properties\<close>

text \<open>
  A file the loop takes without leaving: an image type whose data URL can be read, or a
  \<^verbatim>\<open>text/\<close> type whose text can be read.
\<close>

definition file_accepted :: "File \<Rightarrow> bool" where
  "file_accepted file \<longleftrightarrow>
     (if file_type file \<in> set SUPPORTED_IMAGE_MIMES then \<not> isl (readAsDataURL file)
      else prefix (str ''text/'') (file_type file) \<and> \<not> isl (readAsText file))"

text \<open>The text a request body carries: the plain string, or the text parts of a structured body.\<close>

definition request_text :: "Contents \<Rightarrow> jsstring" where
  "request_text c =
     (case c of
        PlainText t \<Rightarrow> t
      | PartsBody ps \<Rightarrow> concat (map (\<lambda>p. case p of TextPart t \<Rightarrow> t | InlineDataPart d \<Rightarrow> []) ps))"

text \<open>
  What every reachable session satisfies: at most one send is in flight, the conversation
  state is \<open>PROCESSING\<close> exactly while one is, and a placeholder can only be the last entry
  of the transcript, and only while a send is in flight.
\<close>

definition session_inv :: "Session \<Rightarrow> bool" where
  "session_inv \<sigma> \<longleftrightarrow>
     length (in_flight \<sigma>) \<le> 1
     \<and> conversationState (app \<sigma>) = (if in_flight \<sigma> = [] then IDLE else PROCESSING)
     \<and> list_all (\<lambda>e. \<not> is_placeholder e) (butlast (transcript (app \<sigma>)))
     \<and> (in_flight \<sigma> = [] \<longrightarrow> list_all (\<lambda>e. \<not> is_placeholder e) (transcript (app \<sigma>)))"

subsection \<open>Example inputs\<close>

definition example_response :: Response where
  "example_response = \<lparr> response_text = str ''ok'', candidates = None \<rparr>"

definition example_source :: WebValue where
  "example_source = WebObject (Some (str ''https://example.org/a'')) (Some (str ''A''))"

definition example_source_without_uri :: WebValue where
  "example_source_without_uri = WebObject None (Some (str ''B''))"

definition example_grounded_response :: Response where
  "example_grounded_response =
     \<lparr> response_text = str ''ok'',
       candidates = Some [\<lparr> groundingMetadata =
                             Some \<lparr> groundingChunks = Some [\<lparr> web = Undefined \<rparr>, \<lparr> web = example_source \<rparr>] \<rparr>,
                           content = None \<rparr>] \<rparr>"

definition example_malformed_response :: Response where
  "example_malformed_response =
     \<lparr> response_text = str ''ok'',
       candidates = Some [\<lparr> groundingMetadata =
                             Some \<lparr> groundingChunks =
                                      Some [\<lparr> web = Undefined \<rparr>, \<lparr> web = example_source_without_uri \<rparr>,
                                            \<lparr> web = Null \<rparr>, \<lparr> web = example_source \<rparr>] \<rparr>,
                           content = None \<rparr>] \<rparr>"

definition example_env :: "Thrown + Response \<Rightarrow> Env" where
  "example_env outcome = \<lparr> newGoogleGenAI = None, generateContent = (\<lambda>request. outcome) \<rparr>"

definition example_text_file :: File where
  "example_text_file =
     \<lparr> file_name = str ''a.txt'', file_type = str ''text/plain'', readAsText = Inr (str ''hi''),
       readAsDataURL = Inr (str ''data:text/plain;base64,aGk='') \<rparr>"

definition example_zip_file :: File where
  "example_zip_file =
     \<lparr> file_name = str ''b.zip'', file_type = str ''application/zip'', readAsText = Inr (str ''PK''),
       readAsDataURL = Inr (str ''data:application/zip;base64,UEs='') \<rparr>"

definition example_state :: "ChatMode \<Rightarrow> jsstring \<Rightarrow> File list \<Rightarrow> AppState" where
  "example_state mode t fs =
     \<lparr> transcript = [], conversationState = IDLE, chatMode = mode, inputText = t,
       uploadedFiles = fs, isKeySelected = True \<rparr>"

definition example_typed :: Session where
  "example_typed = fire (TypeText (str ''hi'')) (initial defaultSettings)"

definition example_sending :: Session where
  "example_sending = fire Send example_typed"

definition example_typed_again :: Session where
  "example_typed_again = fire (TypeText (str ''again'')) example_sending"

definition example_settled :: Session where
  "example_settled = fire (Settle 0 (Inr example_response)) (fire (Prepare 0 None) example_sending)"

section \<open>Basic facts\<close>

lemma trim_Nil: "trim [] = []"
  by (simp add: trim_def)

lemma send_begin_rejected: "send_rejected s \<Longrightarrow> send_begin settings s = None"
  by (simp add: send_begin_def)

lemma handleSend_rejected: "send_rejected s \<Longrightarrow> handleSend env settings s = (s, [])"
  by (simp add: handleSend_def send_begin_rejected)

lemma send_begin_accepted:
  "\<not> send_rejected s \<Longrightarrow>
   send_begin settings s =
     Some (s\<lparr> transcript := transcript s @ [userMessage s, geminiTypingMessage],
              inputText := [], uploadedFiles := [], conversationState := PROCESSING \<rparr>,
           \<lparr> closure_inputText = inputText s, closure_files = uploadedFiles s,
             closure_chatMode = chatMode s, closure_settings = settings \<rparr>)"
  by (simp add: send_begin_def Let_def)

lemma join_empty_sep: "join xs [] = concat xs"
  by (induction xs "[] :: jsstring" rule: join.induct) simp_all

lemma text_type_not_image:
  "prefix (str ''text/'') t \<Longrightarrow> t \<notin> set SUPPORTED_IMAGE_MIMES"
  by (auto simp: SUPPORTED_IMAGE_MIMES_def str_def)

lemma shorter_than_short:
  "length xs < length ys \<Longrightarrow> length ys \<le> 1 \<Longrightarrow> xs = []"
  by (cases xs) auto

lemma at_index_short:
  assumes "length xs \<le> 1" and "at_index xs i = Some x"
  shows "xs = [x] \<and> i = 0"
  using assms by (cases xs) (auto simp: at_index_def split: if_splits)

lemmas example_defs =
  example_response_def example_source_def example_source_without_uri_def
  example_grounded_response_def example_malformed_response_def example_env_def
  example_text_file_def example_zip_file_def example_state_def

lemmas run_defs =
  handleSend_def send_begin_def send_rejected_def send_prepare_def send_complete_def
  build_contents_def final_entry_def on_error_def error_message_def replace_last_def
  readFileAsText_def fileToBase64_def SUPPORTED_IMAGE_MIMES_def file_accepted_def
  userMessage_def gemini_entry_def geminiTypingMessage_def is_placeholder_def
  trim_def isWhiteSpace_def at_index_def remove_at_def str_def Let_def

section \<open>Sending nothing\<close>

text \<open>
  C4. With an empty input text and no attached file, a send changes nothing: the session
  (transcript, sends in flight, remote calls made) is the same after the event, and the run
  of \<open>handleSend\<close> returns the state it was given and makes no remote call.
\<close>

theorem send_empty_is_noop:
  assumes "inputText (app \<sigma>) = []" and "uploadedFiles (app \<sigma>) = []"
  shows "fire Send \<sigma> = \<sigma> \<and> handleSend env (current_settings \<sigma>) (app \<sigma>) = (app \<sigma>, [])"
proof -
  have "send_rejected (app \<sigma>)"
    using assms by (simp add: send_rejected_def trim_Nil)
  then show ?thesis
    by (simp add: send_begin_rejected handleSend_rejected)
qed

theorem send_empty_is_noop_witness:
  "inputText (app (initial defaultSettings)) = [] \<and> uploadedFiles (app (initial defaultSettings)) = []
   \<and> fire Send (initial defaultSettings) = initial defaultSettings
   \<and> handleSend \<lparr> newGoogleGenAI = None, generateContent = (\<lambda>request. Inl NonError) \<rparr>
        (current_settings (initial defaultSettings)) (app (initial defaultSettings))
      = (app (initial defaultSettings), [])"
proof -
  have a: "inputText (app (initial defaultSettings)) = []"
    and b: "uploadedFiles (app (initial defaultSettings)) = []"
    by (simp_all add: initial_def)
  show ?thesis
    using send_empty_is_noop [OF a b] a b by simp
qed

section \<open>Preferences through the storage\<close>

text \<open>
  C8. Through a storage that takes the write of the effect and gives it back on the reload
  (neither call throws), \<^verbatim>\<open>updateSettings({theme: 'light'})\<close> followed by a reload gives
  settings whose theme is light and whose other four fields are those of the settings before
  the update, whatever those settings were and whatever the storage held.
\<close>

theorem settings_roundtrip:
  assumes "\<not> setItem_throws ls" and "\<not> getItem_throws ls"
  shows "theme (load_settings (persist_settings ls (updateSettings s theme_light))) = light
       \<and> systemPrompt (load_settings (persist_settings ls (updateSettings s theme_light))) = systemPrompt s
       \<and> voice (load_settings (persist_settings ls (updateSettings s theme_light))) = voice s
       \<and> textModel (load_settings (persist_settings ls (updateSettings s theme_light))) = textModel s
       \<and> sendOnEnter (load_settings (persist_settings ls (updateSettings s theme_light))) = sendOnEnter s"
  using assms
  by (simp add: load_settings_def persist_settings_def updateSettings_def theme_light_def
      stringify_def spread_def)

theorem settings_roundtrip_witness:
  "\<not> setItem_throws \<lparr> stored = Absent, getItem_throws = False, setItem_throws = False \<rparr>
   \<and> \<not> getItem_throws \<lparr> stored = Absent, getItem_throws = False, setItem_throws = False \<rparr>
   \<and> theme (load_settings (persist_settings
         \<lparr> stored = Absent, getItem_throws = False, setItem_throws = False \<rparr>
         (updateSettings (defaultSettings\<lparr> voice := Kore \<rparr>) theme_light))) = light
   \<and> voice (load_settings (persist_settings
         \<lparr> stored = Absent, getItem_throws = False, setItem_throws = False \<rparr>
         (updateSettings (defaultSettings\<lparr> voice := Kore \<rparr>) theme_light))) = Kore"
  using settings_roundtrip [of "\<lparr> stored = Absent, getItem_throws = False, setItem_throws = False \<rparr>"
      "defaultSettings\<lparr> voice := Kore \<rparr>"]
  by simp

text \<open>
  The other branch of the effect: when the write throws, the source catches and logs it and
  nothing is stored, so that from the default settings and an empty storage the reload after
  the update still has the dark theme.
\<close>

lemma settings_write_throws:
  "theme (load_settings (persist_settings
      \<lparr> stored = Absent, getItem_throws = False, setItem_throws = True \<rparr>
      (updateSettings defaultSettings theme_light))) = dark
   \<and> theme (load_settings (persist_settings
      \<lparr> stored = Absent, getItem_throws = False, setItem_throws = True \<rparr>
      (updateSettings defaultSettings theme_light))) \<noteq> light"
  by (simp add: load_settings_def persist_settings_def defaultSettings_def)

section \<open>The exported text\<close>

text \<open>
  C9. The export is one block per entry, in the order of the transcript, with two line feeds
  (one blank line) between consecutive blocks. A block is the source in square brackets on a
  line of its own, then, when the entry has attached files, a line \<^verbatim>\<open>Files: \<close> with their
  names, then the text of the entry. The transcript of a user entry "hi" and a gemini entry
  "hello" exports as the two blocks joined by a blank line.
\<close>

theorem exportChat_format:
  "exportChat [] = []
   \<and> exportChat [e] = export_entry e
   \<and> exportChat (e # e' # es) = export_entry e @ str ''\<newline>\<newline>'' @ exportChat (e' # es)
   \<and> export_entry e =
        str ''['' @ source_str (source e) @ str '']\<newline>''
        @ (case files e of
             Some (f # fs) \<Rightarrow> str ''Files: '' @ join (map name (f # fs)) (str '', '') @ str ''\<newline>''
           | _ \<Rightarrow> [])
        @ text e
   \<and> exportChat
        [\<lparr> source = user, text = str ''hi'', isTyping = None, imageUrl = None, sources = None,
            files = Some [] \<rparr>,
         \<lparr> source = gemini, text = str ''hello'', isTyping = None, imageUrl = None, sources = None,
            files = None \<rparr>]
      = str ''[user]\<newline>hi\<newline>\<newline>[gemini]\<newline>hello''"
  by (simp add: exportChat_def export_entry_def source_str_def str_def
      split: option.split list.split)

section \<open>The loop over the attached files\<close>

lemma process_files_unsupported:
  "process_files fs acc = Inr acc' \<Longrightarrow>
   unsupportedFiles acc' =
     unsupportedFiles acc
     @ map file_name
         (filter (\<lambda>f. file_type f \<notin> set SUPPORTED_IMAGE_MIMES \<and> \<not> prefix (str ''text/'') (file_type f)) fs)"
proof (induction fs arbitrary: acc)
  case Nil
  then show ?case by simp
next
  case (Cons f fs)
  then show ?case
    by (auto split: if_splits sum.splits)
qed

lemma process_files_accepted:
  "\<forall>f \<in> set fs. file_accepted f \<Longrightarrow>
   \<exists>acc'. process_files fs acc = Inr acc'
     \<and> unsupportedFiles acc' = unsupportedFiles acc
     \<and> textParts acc' =
         rev (map (\<lambda>f. file_block (file_name f) (projr (readAsText f)))
               (filter (\<lambda>f. prefix (str ''text/'') (file_type f)) fs))
         @ textParts acc"
proof (induction fs arbitrary: acc)
  case Nil
  then show ?case by simp
next
  case (Cons f fs)
  then have rest: "\<forall>f \<in> set fs. file_accepted f" and this_one: "file_accepted f"
    by simp_all
  show ?case
  proof (cases "file_type f \<in> set SUPPORTED_IMAGE_MIMES")
    case True
    then obtain r where r: "readAsDataURL f = Inr r"
      using this_one by (cases "readAsDataURL f") (simp_all add: file_accepted_def)
    have np: "\<not> prefix (str ''text/'') (file_type f)"
      using True text_type_not_image by blast
    show ?thesis
      using Cons.IH [OF rest, of "acc\<lparr>imageParts := imageParts acc
                @ [\<lparr> mimeType = file_type f, data = at_index (split r 44) 1 \<rparr>]\<rparr>"]
      by (simp add: True np r fileToBase64_def)
  next
    case False
    then have p: "prefix (str ''text/'') (file_type f)"
      using this_one by (simp add: file_accepted_def)
    obtain c where c: "readAsText f = Inr c"
      using this_one False by (cases "readAsText f") (simp_all add: file_accepted_def)
    show ?thesis
      using Cons.IH [OF rest, of "acc\<lparr>textParts := file_block (file_name f) c # textParts acc\<rparr>"]
      by (simp add: False p c readFileAsText_def)
  qed
qed

lemma request_text_build_contents: "request_text (build_contents acc) = concat (textParts acc)"
proof -
  have "concat (map (\<lambda>p. case p of TextPart t \<Rightarrow> t | InlineDataPart d \<Rightarrow> []) (map InlineDataPart ds)) = []"
    for ds
    by (induction ds) simp_all
  then show ?thesis
    by (simp add: request_text_def build_contents_def Let_def join_empty_sep)
qed

section \<open>Error entries\<close>

lemma error_prefix_invalid_key: "\<exists>t. msg_invalid_key = msg_error_prefix @ t"
  by (simp add: msg_invalid_key_def msg_error_prefix_def)

lemma error_prefix_unsupported: "\<exists>t. msg_unsupported_before @ x = msg_error_prefix @ t"
  by (simp add: msg_unsupported_before_def msg_error_prefix_def)

lemma on_error_transcript:
  "\<exists>t. transcript (on_error error s) = butlast (transcript s) @ [gemini_entry (msg_error_prefix @ t)]"
proof -
  obtain k where "msg_invalid_key = msg_error_prefix @ k"
    using error_prefix_invalid_key by blast
  then have "transcript (on_error error s) =
      butlast (transcript s)
      @ [gemini_entry (msg_error_prefix
           @ (if credential_error (error_message error) then k else error_message error))]"
    by (simp add: on_error_def Let_def replace_last_def)
  then show ?thesis ..
qed

lemma on_error_state [simp]: "conversationState (on_error error s) = IDLE"
  by (simp add: on_error_def Let_def)

lemma gemini_entry_not_placeholder [simp]: "\<not> is_placeholder (gemini_entry t)"
  by (simp add: is_placeholder_def gemini_entry_def)

lemma userMessage_not_placeholder [simp]: "\<not> is_placeholder (userMessage s)"
  by (simp add: is_placeholder_def userMessage_def)

lemma final_entry_not_placeholder [simp]: "\<not> is_placeholder (final_entry mode response)"
  by (simp add: is_placeholder_def final_entry_def gemini_entry_def
      split: ChatMode.splits option.splits)

lemma on_error_effect:
  "conversationState (on_error error s) = IDLE
   \<and> (\<exists>e. transcript (on_error error s) = butlast (transcript s) @ [e] \<and> \<not> is_placeholder e)"
  by (simp add: on_error_def Let_def replace_last_def)

lemma send_complete_effect:
  "conversationState (send_complete closure outcome s) = IDLE
   \<and> (\<exists>e. transcript (send_complete closure outcome s) = butlast (transcript s) @ [e]
          \<and> \<not> is_placeholder e)"
  using on_error_effect
  by (cases outcome) (simp_all add: send_complete_def replace_last_def)

section \<open>A send with an unsupported file\<close>

lemma handleSend_unsupported:
  assumes "conversationState s \<noteq> PROCESSING"
    and "f \<in> set (uploadedFiles s)"
    and "file_type f \<notin> set SUPPORTED_IMAGE_MIMES"
    and "\<not> prefix (str ''text/'') (file_type f)"
  shows "snd (handleSend env settings s) = []
       \<and> conversationState (fst (handleSend env settings s)) = IDLE
       \<and> (\<exists>errorText. transcript (fst (handleSend env settings s))
             = transcript s @ [userMessage s, gemini_entry (msg_error_prefix @ errorText)])"
proof -
  let ?acc0 = "\<lparr> textParts = [inputText s], imageParts = [], unsupportedFiles = [] \<rparr>"
  let ?s1 = "s\<lparr> transcript := transcript s @ [userMessage s, geminiTypingMessage],
              inputText := [], uploadedFiles := [], conversationState := PROCESSING \<rparr>"
  have acc: "\<not> send_rejected s"
    using assms(1,2) by (auto simp: send_rejected_def)
  have unsup: "unsupportedFiles acc \<noteq> []" if "process_files (uploadedFiles s) ?acc0 = Inr acc" for acc
    using process_files_unsupported [OF that] assms(2,3,4)
    by (auto simp: filter_empty_conv)
  show ?thesis
  proof (cases "newGoogleGenAI env")
    case (Some error)
    then show ?thesis
      using on_error_transcript [of error ?s1]
      by (simp add: handleSend_def send_begin_accepted [OF acc] send_prepare_def butlast_append)
  next
    case None
    show ?thesis
    proof (cases "process_files (uploadedFiles s) ?acc0")
      case (Inl error)
      then show ?thesis
        using None on_error_transcript [of error ?s1]
        by (simp add: handleSend_def send_begin_accepted [OF acc] send_prepare_def butlast_append)
    next
      case (Inr acc')
      obtain t where "msg_unsupported_before
          @ join (unsupportedFiles acc') (str '', '') @ msg_unsupported_after = msg_error_prefix @ t"
        using error_prefix_unsupported by blast
      then have "transcript (fst (handleSend env settings s))
             = transcript s @ [userMessage s, gemini_entry (msg_error_prefix @ t)]"
        using None Inr unsup [OF Inr]
        by (simp add: handleSend_def send_begin_accepted [OF acc] send_prepare_def replace_last_def Let_def butlast_append)
      then have "\<exists>errorText. transcript (fst (handleSend env settings s))
             = transcript s @ [userMessage s, gemini_entry (msg_error_prefix @ errorText)]" ..
      then show ?thesis
        using None Inr unsup [OF Inr]
        by (simp add: handleSend_def send_begin_accepted [OF acc] send_prepare_def Let_def)
    qed
  qed
qed

lemma handleSend_unsupported_text:
  assumes "conversationState s \<noteq> PROCESSING"
    and "f \<in> set (uploadedFiles s)"
    and "file_type f \<notin> set SUPPORTED_IMAGE_MIMES"
    and "\<not> prefix (str ''text/'') (file_type f)"
    and "newGoogleGenAI env = None"
    and "process_files (uploadedFiles s)
           \<lparr> textParts = [inputText s], imageParts = [], unsupportedFiles = [] \<rparr> = Inr acc"
  shows "transcript (fst (handleSend env settings s))
           = transcript s
             @ [userMessage s,
                gemini_entry
                  (msg_unsupported_before
                   @ join (map file_name
                        (filter (\<lambda>g. file_type g \<notin> set SUPPORTED_IMAGE_MIMES
                                     \<and> \<not> prefix (str ''text/'') (file_type g))
                           (uploadedFiles s)))
                      (str '', '')
                   @ msg_unsupported_after)]"
proof -
  have acc: "\<not> send_rejected s"
    using assms(1,2) by (auto simp: send_rejected_def)
  have names: "unsupportedFiles acc
      = map file_name
          (filter (\<lambda>g. file_type g \<notin> set SUPPORTED_IMAGE_MIMES
                       \<and> \<not> prefix (str ''text/'') (file_type g))
             (uploadedFiles s))"
    using process_files_unsupported [OF assms(6)] by simp
  have "unsupportedFiles acc \<noteq> []"
    using names assms(2,3,4) by (auto simp: filter_empty_conv)
  then show ?thesis
    using assms(5,6) names
    by (simp add: handleSend_def send_begin_accepted [OF acc] send_prepare_def replace_last_def
        Let_def butlast_append)
qed

text \<open>
  C3. A send (one not dropped because another is being processed) whose attached files
  include one whose type is neither in the image list nor starts with \<^verbatim>\<open>text/\<close> makes
  no remote call and ends in \<open>IDLE\<close>; the transcript is the one before the send followed by
  the user entry and one error entry, which has taken the place of the placeholder. When
  nothing was thrown on the way (the client was constructed and every read succeeded), the
  error entry is the unsupported-type message with the names of the unsupported files.
\<close>

theorem unsupported_file_aborts:
  assumes "conversationState s \<noteq> PROCESSING"
    and "f \<in> set (uploadedFiles s)"
    and "file_type f \<notin> set SUPPORTED_IMAGE_MIMES"
    and "\<not> prefix (str ''text/'') (file_type f)"
  shows "snd (handleSend env settings s) = []
       \<and> conversationState (fst (handleSend env settings s)) = IDLE
       \<and> (\<exists>errorText. transcript (fst (handleSend env settings s))
             = transcript s @ [userMessage s, gemini_entry (msg_error_prefix @ errorText)])
       \<and> (newGoogleGenAI env = None
            \<and> process_files (uploadedFiles s)
                 \<lparr> textParts = [inputText s], imageParts = [], unsupportedFiles = [] \<rparr> = Inr acc
           \<longrightarrow> transcript (fst (handleSend env settings s))
                 = transcript s
                   @ [userMessage s,
                      gemini_entry
                        (msg_unsupported_before
                         @ join (map file_name
                              (filter (\<lambda>g. file_type g \<notin> set SUPPORTED_IMAGE_MIMES
                                           \<and> \<not> prefix (str ''text/'') (file_type g))
                                 (uploadedFiles s)))
                            (str '', '')
                         @ msg_unsupported_after)])"
  using handleSend_unsupported [OF assms] handleSend_unsupported_text [OF assms]
  by blast

theorem unsupported_file_aborts_witness:
  "conversationState (example_state default_mode (str ''q'') [example_zip_file]) \<noteq> PROCESSING
   \<and> example_zip_file \<in> set (uploadedFiles (example_state default_mode (str ''q'') [example_zip_file]))
   \<and> file_type example_zip_file \<notin> set SUPPORTED_IMAGE_MIMES
   \<and> \<not> prefix (str ''text/'') (file_type example_zip_file)
   \<and> newGoogleGenAI (example_env (Inr example_response)) = None
   \<and> process_files (uploadedFiles (example_state default_mode (str ''q'') [example_zip_file]))
        \<lparr> textParts = [inputText (example_state default_mode (str ''q'') [example_zip_file])],
          imageParts = [], unsupportedFiles = [] \<rparr>
      = Inr \<lparr> textParts = [str ''q''], imageParts = [], unsupportedFiles = [str ''b.zip''] \<rparr>
   \<and> snd (handleSend (example_env (Inr example_response)) defaultSettings
        (example_state default_mode (str ''q'') [example_zip_file])) = []
   \<and> conversationState (fst (handleSend (example_env (Inr example_response)) defaultSettings
        (example_state default_mode (str ''q'') [example_zip_file]))) = IDLE
   \<and> transcript (fst (handleSend (example_env (Inr example_response)) defaultSettings
        (example_state default_mode (str ''q'') [example_zip_file])))
      = [userMessage (example_state default_mode (str ''q'') [example_zip_file]),
         gemini_entry (msg_unsupported_before @ str ''b.zip'' @ msg_unsupported_after)]"
proof -
  let ?s = "example_state default_mode (str ''q'') [example_zip_file]"
  have a: "conversationState ?s \<noteq> PROCESSING"
    and b: "example_zip_file \<in> set (uploadedFiles ?s)"
    and c: "file_type example_zip_file \<notin> set SUPPORTED_IMAGE_MIMES"
    and d: "\<not> prefix (str ''text/'') (file_type example_zip_file)"
    and n: "newGoogleGenAI (example_env (Inr example_response)) = None"
    and old: "transcript ?s = []"
    by (simp_all add: example_defs SUPPORTED_IMAGE_MIMES_def str_def)
  have p: "process_files (uploadedFiles ?s)
        \<lparr> textParts = [inputText ?s], imageParts = [], unsupportedFiles = [] \<rparr>
      = Inr \<lparr> textParts = [str ''q''], imageParts = [], unsupportedFiles = [str ''b.zip''] \<rparr>"
    by (simp add: example_defs SUPPORTED_IMAGE_MIMES_def str_def)
  have names: "map file_name
        (filter (\<lambda>g. file_type g \<notin> set SUPPORTED_IMAGE_MIMES \<and> \<not> prefix (str ''text/'') (file_type g))
           (uploadedFiles ?s)) = [str ''b.zip'']"
    by (simp add: example_defs SUPPORTED_IMAGE_MIMES_def str_def)
  note inst = unsupported_file_aborts [OF a b c d, of "example_env (Inr example_response)"
      defaultSettings
      "\<lparr> textParts = [str ''q''], imageParts = [], unsupportedFiles = [str ''b.zip''] \<rparr>"]
  have "transcript (fst (handleSend (example_env (Inr example_response)) defaultSettings ?s))
      = transcript ?s
        @ [userMessage ?s,
           gemini_entry (msg_unsupported_before
             @ join (map file_name
                  (filter (\<lambda>g. file_type g \<notin> set SUPPORTED_IMAGE_MIMES
                               \<and> \<not> prefix (str ''text/'') (file_type g))
                     (uploadedFiles ?s)))
                (str '', '')
             @ msg_unsupported_after)]"
    using inst n p by blast
  then have e: "transcript (fst (handleSend (example_env (Inr example_response)) defaultSettings ?s))
      = [userMessage ?s,
         gemini_entry (msg_unsupported_before @ str ''b.zip'' @ msg_unsupported_after)]"
    by (simp only: names old join.simps append_Nil)
  show ?thesis
    using inst a b c d n p e by blast
qed

section \<open>A send that reaches the remote call\<close>

lemma send_prepare_called:
  assumes "send_prepare client closure s = (s2, Some request)"
  shows "client = None"
    and "butlast (transcript s2) = butlast (transcript s)"
    and "isKeySelected s2 = isKeySelected s"
    and "\<forall>e \<in> set (transcript s2) - set (transcript s). \<not> is_placeholder e"
  using assms
  by (auto simp: send_prepare_def Let_def replace_last_def is_placeholder_def gemini_entry_def
      split: option.splits sum.splits if_splits ChatMode.splits dest: in_set_butlastD)

lemma handleSend_called:
  assumes "snd (handleSend env settings s) = [request]"
  shows "\<not> send_rejected s"
    and "\<exists>s2. send_prepare (newGoogleGenAI env)
                 \<lparr> closure_inputText = inputText s, closure_files = uploadedFiles s,
                   closure_chatMode = chatMode s, closure_settings = settings \<rparr>
                 (s\<lparr> transcript := transcript s @ [userMessage s, geminiTypingMessage],
                    inputText := [], uploadedFiles := [], conversationState := PROCESSING \<rparr>)
               = (s2, Some request)
             \<and> fst (handleSend env settings s)
               = send_complete
                   \<lparr> closure_inputText = inputText s, closure_files = uploadedFiles s,
                     closure_chatMode = chatMode s, closure_settings = settings \<rparr>
                   (generateContent env request) s2"
proof -
  show r: "\<not> send_rejected s"
    using assms by (auto simp: handleSend_rejected)
  show "\<exists>s2. send_prepare (newGoogleGenAI env)
                 \<lparr> closure_inputText = inputText s, closure_files = uploadedFiles s,
                   closure_chatMode = chatMode s, closure_settings = settings \<rparr>
                 (s\<lparr> transcript := transcript s @ [userMessage s, geminiTypingMessage],
                    inputText := [], uploadedFiles := [], conversationState := PROCESSING \<rparr>)
               = (s2, Some request)
             \<and> fst (handleSend env settings s)
               = send_complete
                   \<lparr> closure_inputText = inputText s, closure_files = uploadedFiles s,
                     closure_chatMode = chatMode s, closure_settings = settings \<rparr>
                   (generateContent env request) s2"
    using assms
    by (auto simp: handleSend_def send_begin_accepted [OF r] split: prod.splits option.splits)
qed

text \<open>
  C5. When the remote call of a send rejects, the transcript is the one before the send
  followed by the user entry and an error entry in place of the placeholder (in image mode,
  in place of the interim entry that had replaced it). The credential-selected flag is
  cleared exactly when the error message contains one of the two phrases the source looks
  for; it keeps its value otherwise. A thrown value that is not an \<^verbatim>\<open>Error\<close> has the
  fixed message for an unknown error.
\<close>

theorem remote_failure_entry:
  assumes "snd (handleSend env settings s) = [request]"
    and "generateContent env request = Inl error"
  shows "transcript (fst (handleSend env settings s))
           = transcript s
             @ [userMessage s,
                gemini_entry (if credential_error (error_message error) then msg_invalid_key
                              else msg_error_prefix @ error_message error)]
       \<and> isKeySelected (fst (handleSend env settings s))
           = (isKeySelected s \<and> \<not> credential_error (error_message error))
       \<and> conversationState (fst (handleSend env settings s)) = IDLE"
proof -
  obtain s2 where p: "send_prepare (newGoogleGenAI env)
                 \<lparr> closure_inputText = inputText s, closure_files = uploadedFiles s,
                   closure_chatMode = chatMode s, closure_settings = settings \<rparr>
                 (s\<lparr> transcript := transcript s @ [userMessage s, geminiTypingMessage],
                    inputText := [], uploadedFiles := [], conversationState := PROCESSING \<rparr>)
               = (s2, Some request)"
    and f: "fst (handleSend env settings s)
               = send_complete
                   \<lparr> closure_inputText = inputText s, closure_files = uploadedFiles s,
                     closure_chatMode = chatMode s, closure_settings = settings \<rparr>
                   (generateContent env request) s2"
    using handleSend_called(2) [OF assms(1)] by blast
  have b: "butlast (transcript s2) = transcript s @ [userMessage s]"
    using send_prepare_called(2) [OF p] by (simp add: butlast_append)
  have k: "isKeySelected s2 = isKeySelected s"
    using send_prepare_called(3) [OF p] by simp
  show ?thesis
    using b k by (simp add: f assms(2) send_complete_def on_error_def Let_def replace_last_def)
qed

lemma example_key_error:
  "credential_error (str ''API key not valid. Please pass a valid API key.'')"
  by (simp add: credential_error_def str_def)

lemma example_quota_error:
  "\<not> credential_error (str ''quota exceeded'')"
  by (simp add: credential_error_def str_def)

lemma example_failing_call:
  "snd (handleSend (example_env (Inl (Error t))) defaultSettings
     (example_state default_mode (str ''q'') []))
   = [\<lparr> model = str ''gemini-2.5-flash'', contents = PlainText (str ''q''),
         config = SystemInstruction (systemPrompt defaultSettings) \<rparr>]"
  by (simp add: example_defs run_defs textModel_str_def defaultSettings_def)

theorem remote_failure_entry_witness:
  "snd (handleSend
          (example_env (Inl (Error (str ''API key not valid. Please pass a valid API key.''))))
          defaultSettings (example_state default_mode (str ''q'') []))
     = [\<lparr> model = str ''gemini-2.5-flash'', contents = PlainText (str ''q''),
           config = SystemInstruction (systemPrompt defaultSettings) \<rparr>]
   \<and> generateContent
        (example_env (Inl (Error (str ''API key not valid. Please pass a valid API key.''))))
        \<lparr> model = str ''gemini-2.5-flash'', contents = PlainText (str ''q''),
          config = SystemInstruction (systemPrompt defaultSettings) \<rparr>
      = Inl (Error (str ''API key not valid. Please pass a valid API key.''))
   \<and> transcript (fst (handleSend
          (example_env (Inl (Error (str ''API key not valid. Please pass a valid API key.''))))
          defaultSettings (example_state default_mode (str ''q'') [])))
      = [userMessage (example_state default_mode (str ''q'') []), gemini_entry msg_invalid_key]
   \<and> isKeySelected (example_state default_mode (str ''q'') [])
   \<and> \<not> isKeySelected (fst (handleSend
          (example_env (Inl (Error (str ''API key not valid. Please pass a valid API key.''))))
          defaultSettings (example_state default_mode (str ''q'') [])))
   \<and> transcript (fst (handleSend (example_env (Inl (Error (str ''quota exceeded''))))
          defaultSettings (example_state default_mode (str ''q'') [])))
      = [userMessage (example_state default_mode (str ''q'') []),
         gemini_entry (msg_error_prefix @ str ''quota exceeded'')]
   \<and> isKeySelected (fst (handleSend (example_env (Inl (Error (str ''quota exceeded''))))
          defaultSettings (example_state default_mode (str ''q'') [])))"
proof -
  let ?key = "str ''API key not valid. Please pass a valid API key.''"
  let ?quota = "str ''quota exceeded''"
  let ?request = "\<lparr> model = str ''gemini-2.5-flash'', contents = PlainText (str ''q''),
           config = SystemInstruction (systemPrompt defaultSettings) \<rparr>"
  have k: "generateContent (example_env (Inl (Error ?key))) ?request = Inl (Error ?key)"
    and q: "generateContent (example_env (Inl (Error ?quota))) ?request = Inl (Error ?quota)"
    by (simp_all add: example_env_def)
  have sel: "isKeySelected (example_state default_mode (str ''q'') [])"
    and old: "transcript (example_state default_mode (str ''q'') []) = []"
    by (simp_all add: example_state_def)
  note with_key = remote_failure_entry [OF example_failing_call k]
  note with_quota = remote_failure_entry [OF example_failing_call q]
  show ?thesis
    using with_key with_quota example_failing_call [of ?key] k sel old
      example_key_error example_quota_error
    by (simp add: error_message_def)
qed

section \<open>Cited sources in search mode\<close>

lemma extract_sources_not_undefined:
  assumes "candidates response = Some (c # cs)"
    and "groundingMetadata c = Some gm"
    and "groundingChunks gm = Some chunks"
  shows "extract_sources response = filter (\<lambda>w. w \<noteq> Undefined) (map web chunks)"
  using assms by (simp add: extract_sources_def first_candidate_def at_index_def)

lemma filter_populated:
  assumes "\<forall>w \<in> set ws. w = Undefined \<or> as_GroundingSource w \<noteq> None"
  shows "filter (\<lambda>w. w \<noteq> Undefined) ws = filter (\<lambda>w. as_GroundingSource w \<noteq> None) ws"
  using assms by (intro filter_cong) auto

lemma search_mode_entry:
  assumes "chatMode s = search_mode"
    and "snd (handleSend env settings s) = [request]"
    and "generateContent env request = Inr response"
  shows "transcript (fst (handleSend env settings s))
           = transcript s
             @ [userMessage s,
                (gemini_entry (response_text response))\<lparr> sources := Some (extract_sources response) \<rparr>]"
proof -
  obtain s2 where p: "send_prepare (newGoogleGenAI env)
                 \<lparr> closure_inputText = inputText s, closure_files = uploadedFiles s,
                   closure_chatMode = chatMode s, closure_settings = settings \<rparr>
                 (s\<lparr> transcript := transcript s @ [userMessage s, geminiTypingMessage],
                    inputText := [], uploadedFiles := [], conversationState := PROCESSING \<rparr>)
               = (s2, Some request)"
    and f: "fst (handleSend env settings s)
               = send_complete
                   \<lparr> closure_inputText = inputText s, closure_files = uploadedFiles s,
                     closure_chatMode = chatMode s, closure_settings = settings \<rparr>
                   (generateContent env request) s2"
    using handleSend_called(2) [OF assms(2)] by blast
  have b: "butlast (transcript s2) = transcript s @ [userMessage s]"
    using send_prepare_called(2) [OF p] by (simp add: butlast_append)
  show ?thesis
    using b by (simp add: f assms(1,3) send_complete_def final_entry_def replace_last_def)
qed

lemma example_malformed_call:
  "snd (handleSend (example_env (Inr example_malformed_response)) defaultSettings
     (example_state search_mode (str ''q'') []))
   = [\<lparr> model = str ''gemini-2.5-flash'', contents = PlainText (str ''q''),
         config = GoogleSearchTool \<rparr>]"
  by (simp add: example_defs run_defs)

text \<open>
  The filter of the source drops \<^verbatim>\<open>undefined\<close> and nothing else. A response whose chunks
  hold an undefined \<^verbatim>\<open>web\<close>, a \<^verbatim>\<open>web\<close> object without \<^verbatim>\<open>uri\<close>, a
  \<^verbatim>\<open>null\<close> and a populated \<^verbatim>\<open>web\<close> gives an entry whose sources are the last three,
  of which the first two are no \<open>GroundingSource\<close>.
\<close>

theorem search_sources_keep_malformed:
  "transcript (fst (handleSend (example_env (Inr example_malformed_response)) defaultSettings
        (example_state search_mode (str ''q'') [])))
      = [userMessage (example_state search_mode (str ''q'') []),
         (gemini_entry (str ''ok''))
           \<lparr> sources := Some [example_source_without_uri, Null, example_source] \<rparr>]
   \<and> as_GroundingSource example_source_without_uri = None
   \<and> as_GroundingSource Null = None
   \<and> as_GroundingSource example_source
       = Some \<lparr> uri = str ''https://example.org/a'', title = str ''A'' \<rparr>"
proof -
  have m: "chatMode (example_state search_mode (str ''q'') []) = search_mode"
    and old: "transcript (example_state search_mode (str ''q'') []) = []"
    by (simp_all add: example_state_def)
  have g: "generateContent (example_env (Inr example_malformed_response))
        \<lparr> model = str ''gemini-2.5-flash'', contents = PlainText (str ''q''),
          config = GoogleSearchTool \<rparr> = Inr example_malformed_response"
    by (simp add: example_env_def)
  have e: "extract_sources example_malformed_response
      = [example_source_without_uri, Null, example_source]"
    by (simp add: extract_sources_def first_candidate_def at_index_def
        example_malformed_response_def example_source_def example_source_without_uri_def)
  have r: "response_text example_malformed_response = str ''ok''"
    by (simp add: example_malformed_response_def)
  have t: "transcript (fst (handleSend (example_env (Inr example_malformed_response)) defaultSettings
        (example_state search_mode (str ''q'') [])))
      = [userMessage (example_state search_mode (str ''q'') []),
         (gemini_entry (str ''ok''))
           \<lparr> sources := Some [example_source_without_uri, Null, example_source] \<rparr>]"
    using search_mode_entry [OF m example_malformed_call g] by (simp only: e r old append_Nil)
  have a: "as_GroundingSource example_source_without_uri = None"
    and b: "as_GroundingSource Null = None"
    and c: "as_GroundingSource example_source
       = Some \<lparr> uri = str ''https://example.org/a'', title = str ''A'' \<rparr>"
    by (simp_all add: example_source_def example_source_without_uri_def)
  show ?thesis
    using t a b c by blast
qed

text \<open>
  C7, as the code has it. In search mode, when the remote call answers with a response whose
  first candidate carries grounding chunks, the entry that replaces the placeholder has as
  its sources exactly the \<^verbatim>\<open>web\<close> fields that are not \<^verbatim>\<open>undefined\<close>, in the order
  of the chunks. So when every chunk has a \<^verbatim>\<open>web\<close> field that is either undefined or
  populated (an object with its \<^verbatim>\<open>uri\<close> and its \<^verbatim>\<open>title\<close>), the sources are exactly
  the populated citations, in their order.
\<close>

theorem search_sources_populated:
  assumes "chatMode s = search_mode"
    and "snd (handleSend env settings s) = [request]"
    and "generateContent env request = Inr response"
    and "candidates response = Some (c # cs)"
    and "groundingMetadata c = Some gm"
    and "groundingChunks gm = Some chunks"
  shows "transcript (fst (handleSend env settings s))
           = transcript s
             @ [userMessage s,
                (gemini_entry (response_text response))\<lparr> sources := Some (extract_sources response) \<rparr>]
       \<and> extract_sources response = filter (\<lambda>w. w \<noteq> Undefined) (map web chunks)
       \<and> ((\<forall>chunk \<in> set chunks. web chunk = Undefined \<or> as_GroundingSource (web chunk) \<noteq> None)
            \<longrightarrow> extract_sources response
                  = filter (\<lambda>w. as_GroundingSource w \<noteq> None) (map web chunks))"
proof -
  have kept: "extract_sources response = filter (\<lambda>w. w \<noteq> Undefined) (map web chunks)"
    using assms(4,5,6) by (rule extract_sources_not_undefined)
  have "extract_sources response = filter (\<lambda>w. as_GroundingSource w \<noteq> None) (map web chunks)"
    if "\<forall>chunk \<in> set chunks. web chunk = Undefined \<or> as_GroundingSource (web chunk) \<noteq> None"
    using that kept filter_populated [of "map web chunks"] by simp
  then show ?thesis
    using search_mode_entry [OF assms(1,2,3)] kept by blast
qed

lemma example_search_call:
  "snd (handleSend (example_env (Inr example_grounded_response)) defaultSettings
     (example_state search_mode (str ''q'') []))
   = [\<lparr> model = str ''gemini-2.5-flash'', contents = PlainText (str ''q''),
         config = GoogleSearchTool \<rparr>]"
  by (simp add: example_defs run_defs)

theorem search_sources_populated_witness:
  "chatMode (example_state search_mode (str ''q'') []) = search_mode
   \<and> snd (handleSend (example_env (Inr example_grounded_response)) defaultSettings
        (example_state search_mode (str ''q'') []))
      = [\<lparr> model = str ''gemini-2.5-flash'', contents = PlainText (str ''q''),
            config = GoogleSearchTool \<rparr>]
   \<and> generateContent (example_env (Inr example_grounded_response))
        \<lparr> model = str ''gemini-2.5-flash'', contents = PlainText (str ''q''),
          config = GoogleSearchTool \<rparr> = Inr example_grounded_response
   \<and> candidates example_grounded_response
      = Some [\<lparr> groundingMetadata =
                  Some \<lparr> groundingChunks = Some [\<lparr> web = Undefined \<rparr>, \<lparr> web = example_source \<rparr>] \<rparr>,
                content = None \<rparr>]
   \<and> list_all (\<lambda>chunk. web chunk = Undefined \<or> as_GroundingSource (web chunk) \<noteq> None)
        [\<lparr> web = Undefined \<rparr>, \<lparr> web = example_source \<rparr>]
   \<and> transcript (fst (handleSend (example_env (Inr example_grounded_response)) defaultSettings
        (example_state search_mode (str ''q'') [])))
      = [userMessage (example_state search_mode (str ''q'') []),
         (gemini_entry (str ''ok''))\<lparr> sources := Some [example_source] \<rparr>]
   \<and> extract_sources example_grounded_response = [example_source]"
proof -
  let ?chunks = "[\<lparr> web = Undefined \<rparr>, \<lparr> web = example_source \<rparr>]"
  let ?c = "\<lparr> groundingMetadata = Some \<lparr> groundingChunks = Some ?chunks \<rparr>, content = None \<rparr>"
  have m: "chatMode (example_state search_mode (str ''q'') []) = search_mode"
    and old: "transcript (example_state search_mode (str ''q'') []) = []"
    by (simp_all add: example_state_def)
  have g: "generateContent (example_env (Inr example_grounded_response))
        \<lparr> model = str ''gemini-2.5-flash'', contents = PlainText (str ''q''),
          config = GoogleSearchTool \<rparr> = Inr example_grounded_response"
    by (simp add: example_env_def)
  have c: "candidates example_grounded_response = Some (?c # [])"
    by (simp add: example_grounded_response_def)
  have gm: "groundingMetadata ?c = Some \<lparr> groundingChunks = Some ?chunks \<rparr>"
    by simp
  have ch: "groundingChunks \<lparr> groundingChunks = Some ?chunks \<rparr> = Some ?chunks"
    by simp
  have ok: "list_all (\<lambda>chunk. web chunk = Undefined \<or> as_GroundingSource (web chunk) \<noteq> None) ?chunks"
    by (simp add: example_source_def)
  then have ok': "\<forall>chunk \<in> set ?chunks. web chunk = Undefined \<or> as_GroundingSource (web chunk) \<noteq> None"
    by (simp only: list_all_iff)
  note inst = search_sources_populated [OF m example_search_call g c gm ch]
  have "extract_sources example_grounded_response
      = filter (\<lambda>w. as_GroundingSource w \<noteq> None) (map web ?chunks)"
    using inst ok' by blast
  then have e: "extract_sources example_grounded_response = [example_source]"
    by (simp add: example_source_def)
  have r: "response_text example_grounded_response = str ''ok''"
    by (simp add: example_grounded_response_def)
  have t: "transcript (fst (handleSend (example_env (Inr example_grounded_response)) defaultSettings
        (example_state search_mode (str ''q'') [])))
      = [userMessage (example_state search_mode (str ''q'') []),
         (gemini_entry (str ''ok''))\<lparr> sources := Some [example_source] \<rparr>]"
    using inst by (simp only: e r old append_Nil)
  show ?thesis
    using m example_search_call g c ok e t by blast
qed

section \<open>Text files in the request\<close>

text \<open>
  The closing delimiter of a block names the file. With the text file \<^verbatim>\<open>a.txt\<close> of
  content "hi" attached and the input "q", the request text of default mode closes the block
  with \<^verbatim>\<open>--- END OF FILE: a.txt ---\<close>, and the delimiter \<^verbatim>\<open>--- END OF FILE ---\<close>
  occurs nowhere in it; in image mode the request carries the input alone; and with an
  unsupported file attached as well, no request is made.
\<close>

theorem text_file_block_end_delimiter:
  "snd (handleSend (example_env (Inr example_response)) defaultSettings
          (example_state default_mode (str ''q'') [example_text_file]))
     = [\<lparr> model = str ''gemini-2.5-flash'',
           contents = PlainText
             (str ''--- START OF FILE: a.txt ---\<newline>hi\<newline>--- END OF FILE: a.txt ---\<newline>\<newline>q''),
           config = SystemInstruction (systemPrompt defaultSettings) \<rparr>]
   \<and> \<not> js_includes
          (str ''--- START OF FILE: a.txt ---\<newline>hi\<newline>--- END OF FILE: a.txt ---\<newline>\<newline>q'')
          (str ''--- END OF FILE ---'')
   \<and> snd (handleSend (example_env (Inr example_response)) defaultSettings
          (example_state image_mode (str ''q'') [example_text_file]))
     = [\<lparr> model = str ''gemini-2.5-flash-image'', contents = PartsBody [TextPart (str ''q'')],
           config = ResponseModalitiesImage \<rparr>]
   \<and> snd (handleSend (example_env (Inr example_response)) defaultSettings
          (example_state default_mode (str ''q'') [example_text_file, example_zip_file])) = []"
proof -
  have a: "snd (handleSend (example_env (Inr example_response)) defaultSettings
          (example_state default_mode (str ''q'') [example_text_file]))
     = [\<lparr> model = str ''gemini-2.5-flash'',
           contents = PlainText
             (str ''--- START OF FILE: a.txt ---\<newline>hi\<newline>--- END OF FILE: a.txt ---\<newline>\<newline>q''),
           config = SystemInstruction (systemPrompt defaultSettings) \<rparr>]"
    by (simp add: example_defs run_defs file_block_def textModel_str_def defaultSettings_def)
  have b: "\<not> js_includes
          (str ''--- START OF FILE: a.txt ---\<newline>hi\<newline>--- END OF FILE: a.txt ---\<newline>\<newline>q'')
          (str ''--- END OF FILE ---'')"
    by (simp add: str_def)
  have c: "snd (handleSend (example_env (Inr example_response)) defaultSettings
          (example_state image_mode (str ''q'') [example_text_file]))
     = [\<lparr> model = str ''gemini-2.5-flash-image'', contents = PartsBody [TextPart (str ''q'')],
           config = ResponseModalitiesImage \<rparr>]"
    by (simp add: example_defs run_defs)
  have d: "snd (handleSend (example_env (Inr example_response)) defaultSettings
          (example_state default_mode (str ''q'') [example_text_file, example_zip_file])) = []"
    by (simp add: example_defs run_defs)
  show ?thesis
    using a b c d by blast
qed

text \<open>
  C6, as the code has it. In every mode but image mode, for a send whose client is
  constructed and whose files are all accepted, each attached file of a \<^verbatim>\<open>text/\<close> type
  contributes the block \<^verbatim>\<open>--- START OF FILE: name ---\<close>, line feed, the content, line
  feed, \<^verbatim>\<open>--- END OF FILE: name ---\<close>, two line feeds, to the text of the one request made,
  and the block stands before the typed input, which ends the text.
\<close>

theorem text_file_block_in_request:
  assumes "chatMode s \<noteq> image_mode"
    and "conversationState s \<noteq> PROCESSING"
    and "newGoogleGenAI env = None"
    and "\<forall>g \<in> set (uploadedFiles s). file_accepted g"
    and "f \<in> set (uploadedFiles s)"
    and "prefix (str ''text/'') (file_type f)"
    and "readAsText f = Inr textContent"
  shows "\<exists>request before after.
           snd (handleSend env settings s) = [request]
         \<and> request_text (contents request)
             = before @ file_block (file_name f) textContent @ after @ inputText s"
proof -
  let ?is_text = "\<lambda>f. prefix (str ''text/'') (file_type f)"
  let ?block = "\<lambda>f. file_block (file_name f) (projr (readAsText f))"
  have acc: "\<not> send_rejected s"
    using assms(2,5) by (auto simp: send_rejected_def)
  obtain acc' where pf: "process_files (uploadedFiles s)
        \<lparr> textParts = [inputText s], imageParts = [], unsupportedFiles = [] \<rparr> = Inr acc'"
    and un: "unsupportedFiles acc' = []"
    and tp: "textParts acc' = rev (map ?block (filter ?is_text (uploadedFiles s))) @ [inputText s]"
    using process_files_accepted [OF assms(4),
        of "\<lparr> textParts = [inputText s], imageParts = [], unsupportedFiles = [] \<rparr>"]
    by auto
  have "f \<in> set (filter ?is_text (uploadedFiles s))"
    using assms(5,6) by simp
  then obtain xs ys where sp: "filter ?is_text (uploadedFiles s) = xs @ f # ys"
    by (meson split_list)
  have whole: "concat (textParts acc')
      = concat (rev (map ?block ys)) @ file_block (file_name f) textContent
        @ concat (rev (map ?block xs)) @ inputText s"
    by (simp add: tp sp assms(7))
  obtain request where call: "snd (handleSend env settings s) = [request]"
    and body: "contents request = build_contents acc'"
    using assms(1,3) pf un
    by (cases "chatMode s")
      (simp_all add: handleSend_def send_begin_accepted [OF acc] send_prepare_def Let_def)
  have "request_text (contents request)
      = concat (rev (map ?block ys)) @ file_block (file_name f) textContent
        @ concat (rev (map ?block xs)) @ inputText s"
    by (simp add: body request_text_build_contents whole)
  then show ?thesis
    using call by blast
qed

theorem text_file_block_in_request_witness:
  "chatMode (example_state default_mode (str ''q'') [example_text_file]) \<noteq> image_mode
   \<and> conversationState (example_state default_mode (str ''q'') [example_text_file]) \<noteq> PROCESSING
   \<and> newGoogleGenAI (example_env (Inr example_response)) = None
   \<and> list_all file_accepted (uploadedFiles (example_state default_mode (str ''q'') [example_text_file]))
   \<and> example_text_file \<in> set (uploadedFiles (example_state default_mode (str ''q'') [example_text_file]))
   \<and> prefix (str ''text/'') (file_type example_text_file)
   \<and> readAsText example_text_file = Inr (str ''hi'')
   \<and> (\<exists>request before after.
          snd (handleSend (example_env (Inr example_response)) defaultSettings
                (example_state default_mode (str ''q'') [example_text_file])) = [request]
        \<and> request_text (contents request)
            = before @ file_block (str ''a.txt'') (str ''hi'') @ after @ str ''q'')"
proof -
  let ?s = "example_state default_mode (str ''q'') [example_text_file]"
  have a: "chatMode ?s \<noteq> image_mode"
    and b: "conversationState ?s \<noteq> PROCESSING"
    and c: "newGoogleGenAI (example_env (Inr example_response)) = None"
    and d: "example_text_file \<in> set (uploadedFiles ?s)"
    and i: "inputText ?s = str ''q''"
    by (simp_all add: example_state_def example_env_def)
  have e: "prefix (str ''text/'') (file_type example_text_file)"
    and f: "readAsText example_text_file = Inr (str ''hi'')"
    and n: "file_name example_text_file = str ''a.txt''"
    by (simp_all add: example_text_file_def str_def)
  have g: "list_all file_accepted (uploadedFiles ?s)"
    by (simp add: example_state_def example_text_file_def file_accepted_def
        SUPPORTED_IMAGE_MIMES_def str_def)
  then have h: "\<forall>g \<in> set (uploadedFiles ?s). file_accepted g"
    by (simp add: list_all_iff)
  note inst = text_file_block_in_request [OF a b c h d e f, of defaultSettings]
  have "\<exists>request before after.
          snd (handleSend (example_env (Inr example_response)) defaultSettings ?s) = [request]
        \<and> request_text (contents request)
            = before @ file_block (str ''a.txt'') (str ''hi'') @ after @ str ''q''"
    using inst by (simp only: n i)
  then show ?thesis
    using a b c d e f g by blast
qed

section \<open>The request of image mode\<close>

text \<open>
  C10. In image mode a send makes no call or exactly one, and that one is the image request
  whose body is the single text part holding the input text as it was when the send started:
  nothing of the attached files is in it. An unsupported attached file still leaves the send
  without any call; a send that is accepted, whose client is constructed and whose files are
  all accepted makes the call.
\<close>

theorem image_request_text_only:
  assumes "chatMode s = image_mode"
  shows "(snd (handleSend env settings s) = []
          \<or> snd (handleSend env settings s)
              = [\<lparr> model = str ''gemini-2.5-flash-image'',
                    contents = PartsBody [TextPart (inputText s)],
                    config = ResponseModalitiesImage \<rparr>])
       \<and> ((\<exists>f \<in> set (uploadedFiles s).
              file_type f \<notin> set SUPPORTED_IMAGE_MIMES \<and> \<not> prefix (str ''text/'') (file_type f))
            \<longrightarrow> snd (handleSend env settings s) = [])
       \<and> (\<not> send_rejected s \<and> newGoogleGenAI env = None
            \<and> (\<forall>f \<in> set (uploadedFiles s). file_accepted f)
            \<longrightarrow> snd (handleSend env settings s)
                  = [\<lparr> model = str ''gemini-2.5-flash-image'',
                        contents = PartsBody [TextPart (inputText s)],
                        config = ResponseModalitiesImage \<rparr>])"
proof (intro conjI impI)
  show "snd (handleSend env settings s) = []
          \<or> snd (handleSend env settings s)
              = [\<lparr> model = str ''gemini-2.5-flash-image'',
                    contents = PartsBody [TextPart (inputText s)],
                    config = ResponseModalitiesImage \<rparr>]"
  proof (cases "send_rejected s")
    case True
    then show ?thesis by (simp add: handleSend_rejected)
  next
    case False
    then show ?thesis
      using assms
      by (simp add: handleSend_def send_begin_accepted [OF False] send_prepare_def Let_def
          split: option.splits sum.splits)
  qed
next
  assume "\<exists>f \<in> set (uploadedFiles s).
              file_type f \<notin> set SUPPORTED_IMAGE_MIMES \<and> \<not> prefix (str ''text/'') (file_type f)"
  then obtain f where f: "f \<in> set (uploadedFiles s)" "file_type f \<notin> set SUPPORTED_IMAGE_MIMES"
      "\<not> prefix (str ''text/'') (file_type f)"
    by blast
  show "snd (handleSend env settings s) = []"
  proof (cases "conversationState s = PROCESSING")
    case True
    then show ?thesis by (simp add: handleSend_rejected send_rejected_def)
  next
    case False
    then show ?thesis
      using handleSend_unsupported [OF False f] by simp
  qed
next
  assume a: "\<not> send_rejected s \<and> newGoogleGenAI env = None
            \<and> (\<forall>f \<in> set (uploadedFiles s). file_accepted f)"
  then have acc: "\<not> send_rejected s" and cl: "newGoogleGenAI env = None"
    and ok: "\<forall>f \<in> set (uploadedFiles s). file_accepted f"
    by simp_all
  obtain acc' where pf: "process_files (uploadedFiles s)
        \<lparr> textParts = [inputText s], imageParts = [], unsupportedFiles = [] \<rparr> = Inr acc'"
    and un: "unsupportedFiles acc' = []"
    using process_files_accepted [OF ok,
        of "\<lparr> textParts = [inputText s], imageParts = [], unsupportedFiles = [] \<rparr>"]
    by auto
  show "snd (handleSend env settings s)
                  = [\<lparr> model = str ''gemini-2.5-flash-image'',
                        contents = PartsBody [TextPart (inputText s)],
                        config = ResponseModalitiesImage \<rparr>]"
    using assms cl pf un
    by (simp add: handleSend_def send_begin_accepted [OF acc] send_prepare_def Let_def)
qed

theorem image_request_text_only_witness:
  "chatMode (example_state image_mode (str ''q'') [example_text_file]) = image_mode
   \<and> \<not> send_rejected (example_state image_mode (str ''q'') [example_text_file])
   \<and> newGoogleGenAI (example_env (Inr example_response)) = None
   \<and> list_all file_accepted (uploadedFiles (example_state image_mode (str ''q'') [example_text_file]))
   \<and> snd (handleSend (example_env (Inr example_response)) defaultSettings
        (example_state image_mode (str ''q'') [example_text_file]))
      = [\<lparr> model = str ''gemini-2.5-flash-image'', contents = PartsBody [TextPart (str ''q'')],
            config = ResponseModalitiesImage \<rparr>]
   \<and> chatMode (example_state image_mode (str ''q'') [example_zip_file]) = image_mode
   \<and> list_ex (\<lambda>f. file_type f \<notin> set SUPPORTED_IMAGE_MIMES \<and> \<not> prefix (str ''text/'') (file_type f))
        (uploadedFiles (example_state image_mode (str ''q'') [example_zip_file]))
   \<and> snd (handleSend (example_env (Inr example_response)) defaultSettings
        (example_state image_mode (str ''q'') [example_zip_file])) = []"
proof -
  let ?s = "example_state image_mode (str ''q'') [example_text_file]"
  let ?z = "example_state image_mode (str ''q'') [example_zip_file]"
  have a: "chatMode ?s = image_mode" and a': "chatMode ?z = image_mode"
    and c: "newGoogleGenAI (example_env (Inr example_response)) = None"
    and i: "inputText ?s = str ''q''"
    by (simp_all add: example_state_def example_env_def)
  have b: "\<not> send_rejected ?s"
    by (simp add: example_state_def send_rejected_def)
  have g: "list_all file_accepted (uploadedFiles ?s)"
    by (simp add: example_state_def example_text_file_def file_accepted_def
        SUPPORTED_IMAGE_MIMES_def str_def)
  then have h: "\<forall>f \<in> set (uploadedFiles ?s). file_accepted f"
    by (simp add: list_all_iff)
  have u: "list_ex (\<lambda>f. file_type f \<notin> set SUPPORTED_IMAGE_MIMES \<and> \<not> prefix (str ''text/'') (file_type f))
        (uploadedFiles ?z)"
    by (simp add: example_state_def example_zip_file_def SUPPORTED_IMAGE_MIMES_def str_def)
  then have u': "\<exists>f \<in> set (uploadedFiles ?z).
      file_type f \<notin> set SUPPORTED_IMAGE_MIMES \<and> \<not> prefix (str ''text/'') (file_type f)"
    by (simp add: list_ex_iff)
  note text_run = image_request_text_only [OF a, of "example_env (Inr example_response)" defaultSettings]
  note zip_run = image_request_text_only [OF a', of "example_env (Inr example_response)" defaultSettings]
  have "snd (handleSend (example_env (Inr example_response)) defaultSettings ?s)
      = [\<lparr> model = str ''gemini-2.5-flash-image'', contents = PartsBody [TextPart (inputText ?s)],
            config = ResponseModalitiesImage \<rparr>]"
    using text_run b c h by blast
  then have r: "snd (handleSend (example_env (Inr example_response)) defaultSettings ?s)
      = [\<lparr> model = str ''gemini-2.5-flash-image'', contents = PartsBody [TextPart (str ''q'')],
            config = ResponseModalitiesImage \<rparr>]"
    by (simp only: i)
  have z: "snd (handleSend (example_env (Inr example_response)) defaultSettings ?z) = []"
    using zip_run u' by blast
  show ?thesis
    using a a' b c g u r z by blast
qed

section \<open>Sessions\<close>

lemma send_prepare_finished:
  assumes "send_prepare client closure s = (s2, None)"
  shows "conversationState s2 = IDLE
   \<and> (\<exists>e. transcript s2 = butlast (transcript s) @ [e] \<and> \<not> is_placeholder e)"
proof (cases client)
  case (Some error)
  then show ?thesis
    using assms on_error_effect [of error s] by (auto simp: send_prepare_def)
next
  case None
  show ?thesis
  proof (cases "process_files (closure_files closure)
                 \<lparr> textParts = [closure_inputText closure], imageParts = [], unsupportedFiles = [] \<rparr>")
    case (Inl error)
    then show ?thesis
      using assms None on_error_effect [of error s] by (auto simp: send_prepare_def)
  next
    case (Inr acc)
    then show ?thesis
      using assms None
      by (cases "closure_chatMode closure")
        (auto simp: send_prepare_def Let_def replace_last_def split: if_splits)
  qed
qed

lemma send_prepare_awaiting:
  assumes "send_prepare client closure s = (s2, Some request)"
  shows "conversationState s2 = conversationState s
   \<and> butlast (transcript s2) = butlast (transcript s)
   \<and> (transcript s2 = transcript s
        \<or> (\<exists>e. transcript s2 = butlast (transcript s) @ [e] \<and> \<not> is_placeholder e))"
  using assms
  by (auto simp: send_prepare_def Let_def replace_last_def
      split: option.splits sum.splits if_splits ChatMode.splits)

lemma session_inv_initial: "session_inv (initial settings)"
  by (simp add: session_inv_def initial_def)

lemma session_inv_Send:
  assumes "session_inv \<sigma>"
  shows "session_inv (fire Send \<sigma>)"
proof (cases "send_rejected (app \<sigma>)")
  case True
  then show ?thesis
    using assms by (simp add: send_begin_rejected)
next
  case False
  then have "conversationState (app \<sigma>) \<noteq> PROCESSING"
    by (simp add: send_rejected_def)
  then have idle: "in_flight \<sigma> = []"
    using assms by (auto simp: session_inv_def split: if_splits)
  then have "list_all (\<lambda>e. \<not> is_placeholder e) (transcript (app \<sigma>))"
    using assms by (simp add: session_inv_def)
  then show ?thesis
    using idle by (simp add: send_begin_accepted [OF False] session_inv_def butlast_append)
qed

lemma session_inv_Prepare:
  assumes "session_inv \<sigma>"
  shows "session_inv (fire (Prepare i client) \<sigma>)"
proof (cases "at_index (in_flight \<sigma>) i")
  case None
  then show ?thesis using assms by simp
next
  case (Some x)
  obtain closure stage where x: "x = (closure, stage)"
    by (cases x)
  have one: "in_flight \<sigma> = [(closure, stage)]" and i: "i = 0"
    using at_index_short [of "in_flight \<sigma>" i x] assms Some x
    by (simp_all add: session_inv_def)
  have clean: "list_all (\<lambda>e. \<not> is_placeholder e) (butlast (transcript (app \<sigma>)))"
    and busy: "conversationState (app \<sigma>) = PROCESSING"
    using assms one by (simp_all add: session_inv_def)
  show ?thesis
  proof (cases stage)
    case (Awaiting request)
    then show ?thesis
      using assms Some x by simp
  next
    case Started
    obtain s2 r where p: "send_prepare client closure (app \<sigma>) = (s2, r)"
      by (cases "send_prepare client closure (app \<sigma>)")
    show ?thesis
    proof (cases r)
      case None
      then show ?thesis
        using send_prepare_finished [of client closure "app \<sigma>" s2] p clean one i Some x Started
        by (auto simp: session_inv_def remove_at_def)
    next
      case (Some request)
      then show ?thesis
        using send_prepare_awaiting [of client closure "app \<sigma>" s2 request] p clean busy one i x Started
        by (auto simp: session_inv_def at_index_def)
    qed
  qed
qed

lemma session_inv_Settle:
  assumes "session_inv \<sigma>"
  shows "session_inv (fire (Settle i outcome) \<sigma>)"
proof (cases "at_index (in_flight \<sigma>) i")
  case None
  then show ?thesis using assms by simp
next
  case (Some x)
  obtain closure stage where x: "x = (closure, stage)"
    by (cases x)
  have one: "in_flight \<sigma> = [(closure, stage)]" and i: "i = 0"
    using at_index_short [of "in_flight \<sigma>" i x] assms Some x
    by (simp_all add: session_inv_def)
  have clean: "list_all (\<lambda>e. \<not> is_placeholder e) (butlast (transcript (app \<sigma>)))"
    using assms by (simp add: session_inv_def)
  show ?thesis
  proof (cases stage)
    case Started
    then show ?thesis
      using assms Some x by simp
  next
    case (Awaiting request)
    then show ?thesis
      using send_complete_effect [of closure outcome "app \<sigma>"] clean one i Some x
      by (auto simp: session_inv_def remove_at_def)
  qed
qed

lemma session_inv_fire:
  assumes "session_inv \<sigma>"
  shows "session_inv (fire e \<sigma>)"
proof (cases e)
  case Send
  then show ?thesis using session_inv_Send [OF assms] by simp
next
  case (Prepare i client)
  then show ?thesis using session_inv_Prepare [OF assms] by simp
next
  case (Settle i outcome)
  then show ?thesis using session_inv_Settle [OF assms] by simp
qed (use assms in \<open>simp_all add: session_inv_def\<close>)

lemma reachable_inv: "reachable \<sigma> \<Longrightarrow> session_inv \<sigma>"
  by (induction rule: reachable.induct) (simp_all add: session_inv_initial session_inv_fire)

lemma placeholders_of_clean_butlast:
  assumes "list_all (\<lambda>e. \<not> is_placeholder e) (butlast t)"
  shows "length (filter is_placeholder t) \<le> 1"
    and "\<forall>i < length t. is_placeholder (t ! i) \<longrightarrow> Suc i = length t"
proof -
  have none: "filter is_placeholder (butlast t) = []"
    using assms by (simp add: list_all_iff filter_empty_conv)
  show "length (filter is_placeholder t) \<le> 1"
  proof (cases "t = []")
    case True
    then show ?thesis by simp
  next
    case False
    then have "t = butlast t @ [last t]" by simp
    then have "filter is_placeholder t = filter is_placeholder (butlast t) @ filter is_placeholder [last t]"
      by (metis filter_append)
    then show ?thesis using none by simp
  qed
  show "\<forall>i < length t. is_placeholder (t ! i) \<longrightarrow> Suc i = length t"
  proof (intro allI impI)
    fix i
    assume i: "i < length t" and p: "is_placeholder (t ! i)"
    show "Suc i = length t"
    proof (rule ccontr)
      assume "Suc i \<noteq> length t"
      then have less: "i < length (butlast t)" using i by simp
      have "butlast t ! i \<in> set (butlast t)"
        using less by (rule nth_mem)
      moreover have "butlast t ! i = t ! i"
        using less by (rule nth_butlast)
      ultimately show False using assms p by (auto simp: list_all_iff)
    qed
  qed
qed

lemma handleSend_ends_idle:
  assumes "\<not> send_rejected s"
  shows "conversationState (fst (handleSend env settings s)) = IDLE"
proof -
  let ?closure = "\<lparr> closure_inputText = inputText s, closure_files = uploadedFiles s,
                   closure_chatMode = chatMode s, closure_settings = settings \<rparr>"
  let ?s1 = "s\<lparr> transcript := transcript s @ [userMessage s, geminiTypingMessage],
                    inputText := [], uploadedFiles := [], conversationState := PROCESSING \<rparr>"
  obtain s2 r where p: "send_prepare (newGoogleGenAI env) ?closure ?s1 = (s2, r)"
    by (cases "send_prepare (newGoogleGenAI env) ?closure ?s1")
  show ?thesis
  proof (cases r)
    case None
    then show ?thesis
      using p send_prepare_finished [of "newGoogleGenAI env" ?closure ?s1 s2]
      by (simp add: handleSend_def send_begin_accepted [OF assms])
  next
    case (Some request)
    then show ?thesis
      using p send_complete_effect [of ?closure "generateContent env request" s2]
      by (simp add: handleSend_def send_begin_accepted [OF assms])
  qed
qed

lemma example_sending_eval:
  "example_sending =
     \<lparr> app = \<lparr> transcript = [\<lparr> source = user, text = str ''hi'', isTyping = None, imageUrl = None,
                                 sources = None, files = Some [] \<rparr>, geminiTypingMessage],
               conversationState = PROCESSING, chatMode = default_mode,
               inputText = [], uploadedFiles = [], isKeySelected = False \<rparr>,
       current_settings = defaultSettings,
       in_flight = [(\<lparr> closure_inputText = str ''hi'', closure_files = [], closure_chatMode = default_mode,
                       closure_settings = defaultSettings \<rparr>, Started)],
       calls = [] \<rparr>"
  by (simp add: example_sending_def example_typed_def initial_def send_begin_def
      send_rejected_def trim_def isWhiteSpace_def userMessage_def str_def)

lemma example_settled_eval:
  "example_settled =
     \<lparr> app = \<lparr> transcript = [\<lparr> source = user, text = str ''hi'', isTyping = None, imageUrl = None,
                                 sources = None, files = Some [] \<rparr>, gemini_entry (str ''ok'')],
               conversationState = IDLE, chatMode = default_mode,
               inputText = [], uploadedFiles = [], isKeySelected = False \<rparr>,
       current_settings = defaultSettings,
       in_flight = [],
       calls = [\<lparr> model = str ''gemini-2.5-flash'', contents = PlainText (str ''hi''),
                  config = SystemInstruction (systemPrompt defaultSettings) \<rparr>] \<rparr>"
  by (simp add: example_settled_def example_sending_eval at_index_def remove_at_def
      send_prepare_def send_complete_def build_contents_def final_entry_def replace_last_def
      textModel_str_def example_response_def geminiTypingMessage_def
      defaultSettings_def str_def)

lemma example_typed_reachable: "reachable example_typed"
  unfolding example_typed_def by (intro reachable.intros)

lemma example_sending_reachable: "reachable example_sending"
  unfolding example_sending_def example_typed_def by (intro reachable.intros)

lemma example_settled_reachable: "reachable example_settled"
  unfolding example_settled_def example_sending_def example_typed_def
  by (intro reachable.intros)

lemma handleSend_transcript:
  assumes "\<not> send_rejected s"
  shows "\<exists>entry. transcript (fst (handleSend env settings s)) = transcript s @ [userMessage s, entry]
           \<and> \<not> is_placeholder entry"
proof -
  let ?closure = "\<lparr> closure_inputText = inputText s, closure_files = uploadedFiles s,
                   closure_chatMode = chatMode s, closure_settings = settings \<rparr>"
  let ?s1 = "s\<lparr> transcript := transcript s @ [userMessage s, geminiTypingMessage],
                    inputText := [], uploadedFiles := [], conversationState := PROCESSING \<rparr>"
  have b1: "butlast (transcript ?s1) = transcript s @ [userMessage s]"
    by (simp add: butlast_append)
  obtain s2 r where p: "send_prepare (newGoogleGenAI env) ?closure ?s1 = (s2, r)"
    by (cases "send_prepare (newGoogleGenAI env) ?closure ?s1")
  show ?thesis
  proof (cases r)
    case None
    then obtain entry where "transcript s2 = butlast (transcript ?s1) @ [entry]"
      and "\<not> is_placeholder entry"
      using p send_prepare_finished [of "newGoogleGenAI env" ?closure ?s1 s2] by blast
    then show ?thesis
      using p None b1 by (simp add: handleSend_def send_begin_accepted [OF assms])
  next
    case (Some request)
    then have "butlast (transcript s2) = butlast (transcript ?s1)"
      using p send_prepare_awaiting [of "newGoogleGenAI env" ?closure ?s1 s2 request] by blast
    moreover obtain entry where
      "transcript (send_complete ?closure (generateContent env request) s2)
         = butlast (transcript s2) @ [entry]"
      and "\<not> is_placeholder entry"
      using send_complete_effect [of ?closure "generateContent env request" s2] by blast
    ultimately show ?thesis
      using p Some b1 by (simp add: handleSend_def send_begin_accepted [OF assms])
  qed
qed

lemma handleSend_clears_placeholder:
  assumes "session_inv \<sigma>" and "\<not> send_rejected (app \<sigma>)"
  shows "filter is_placeholder (transcript (fst (handleSend env settings (app \<sigma>)))) = []"
proof -
  have "conversationState (app \<sigma>) \<noteq> PROCESSING"
    using assms(2) by (simp add: send_rejected_def)
  then have "in_flight \<sigma> = []"
    using assms(1) by (auto simp: session_inv_def split: if_splits)
  then have "filter is_placeholder (transcript (app \<sigma>)) = []"
    using assms(1) by (simp add: session_inv_def list_all_iff filter_empty_conv)
  moreover obtain entry where
    "transcript (fst (handleSend env settings (app \<sigma>)))
       = transcript (app \<sigma>) @ [userMessage (app \<sigma>), entry]"
    and "\<not> is_placeholder entry"
    using handleSend_transcript [OF assms(2)] by blast
  ultimately show ?thesis by simp
qed

text \<open>
  C1. In every reachable session the transcript holds at most one placeholder, a placeholder
  can only be its last entry, and a placeholder is there only while the conversation state is
  \<open>PROCESSING\<close> and a send is in flight. When no send is in flight the transcript holds no
  placeholder, and so it is after any event that ends a send in flight, whatever the outcome;
  a send accepted in a reachable session and run to its end leaves no placeholder either.
\<close>

theorem placeholder_invariant:
  assumes "reachable \<sigma>"
  shows "length (filter is_placeholder (transcript (app \<sigma>))) \<le> 1
       \<and> (\<forall>i < length (transcript (app \<sigma>)).
             is_placeholder (transcript (app \<sigma>) ! i) \<longrightarrow> Suc i = length (transcript (app \<sigma>)))
       \<and> ((\<exists>entry \<in> set (transcript (app \<sigma>)). is_placeholder entry)
             \<longrightarrow> conversationState (app \<sigma>) = PROCESSING \<and> in_flight \<sigma> \<noteq> [])
       \<and> (in_flight \<sigma> = [] \<longrightarrow> filter is_placeholder (transcript (app \<sigma>)) = [])
       \<and> (length (in_flight (fire e \<sigma>)) < length (in_flight \<sigma>)
             \<longrightarrow> filter is_placeholder (transcript (app (fire e \<sigma>))) = [])
       \<and> (\<not> send_rejected (app \<sigma>)
             \<longrightarrow> filter is_placeholder
                   (transcript (fst (handleSend env (current_settings \<sigma>) (app \<sigma>)))) = [])"
proof -
  have inv: "session_inv \<sigma>"
    using assms by (rule reachable_inv)
  have inv': "session_inv (fire e \<sigma>)"
    using reachable.step [OF assms] by (rule reachable_inv)
  have clean: "list_all (\<lambda>e. \<not> is_placeholder e) (butlast (transcript (app \<sigma>)))"
    using inv by (simp add: session_inv_def)
  have idle: "filter is_placeholder (transcript (app \<tau>)) = []" if "session_inv \<tau>" "in_flight \<tau> = []" for \<tau>
    using that by (simp add: session_inv_def list_all_iff filter_empty_conv)
  have a: "length (filter is_placeholder (transcript (app \<sigma>))) \<le> 1"
    using placeholders_of_clean_butlast(1) [OF clean] .
  have b: "\<forall>i < length (transcript (app \<sigma>)).
             is_placeholder (transcript (app \<sigma>) ! i) \<longrightarrow> Suc i = length (transcript (app \<sigma>))"
    using placeholders_of_clean_butlast(2) [OF clean] .
  have c: "(\<exists>entry \<in> set (transcript (app \<sigma>)). is_placeholder entry)
             \<longrightarrow> conversationState (app \<sigma>) = PROCESSING \<and> in_flight \<sigma> \<noteq> []"
    using inv by (auto simp: session_inv_def list_all_iff)
  have d: "in_flight \<sigma> = [] \<longrightarrow> filter is_placeholder (transcript (app \<sigma>)) = []"
    using idle [OF inv] by simp
  have "in_flight (fire e \<sigma>) = []" if "length (in_flight (fire e \<sigma>)) < length (in_flight \<sigma>)"
    using that inv shorter_than_short [of "in_flight (fire e \<sigma>)" "in_flight \<sigma>"]
    by (simp add: session_inv_def)
  then have e: "length (in_flight (fire e \<sigma>)) < length (in_flight \<sigma>)
             \<longrightarrow> filter is_placeholder (transcript (app (fire e \<sigma>))) = []"
    using idle [OF inv'] by simp
  have f: "\<not> send_rejected (app \<sigma>)
             \<longrightarrow> filter is_placeholder
                   (transcript (fst (handleSend env (current_settings \<sigma>) (app \<sigma>)))) = []"
    using handleSend_clears_placeholder [OF inv] by blast
  show ?thesis
    using a b c d e f by blast
qed

theorem placeholder_invariant_witness:
  "reachable example_sending
   \<and> list_ex is_placeholder (transcript (app example_sending))
   \<and> length (filter is_placeholder (transcript (app example_sending))) \<le> 1
   \<and> is_placeholder (transcript (app example_sending) ! 1)
   \<and> length (transcript (app example_sending)) = 2
   \<and> conversationState (app example_sending) = PROCESSING
   \<and> length (in_flight (fire (Prepare 0 (Some NonError)) example_sending))
        < length (in_flight example_sending)
   \<and> filter is_placeholder (transcript (app (fire (Prepare 0 (Some NonError)) example_sending))) = []
   \<and> reachable example_settled
   \<and> in_flight example_settled = []
   \<and> filter is_placeholder (transcript (app example_settled)) = []
   \<and> reachable example_typed
   \<and> \<not> send_rejected (app example_typed)
   \<and> filter is_placeholder
        (transcript (fst (handleSend (example_env (Inl NonError)) (current_settings example_typed)
           (app example_typed)))) = []"
proof -
  have a: "list_ex is_placeholder (transcript (app example_sending))"
    and b: "is_placeholder (transcript (app example_sending) ! 1)"
    and c: "length (transcript (app example_sending)) = 2"
    and d: "length (in_flight (fire (Prepare 0 (Some NonError)) example_sending))
        < length (in_flight example_sending)"
    by (simp_all add: example_sending_eval is_placeholder_def geminiTypingMessage_def
        at_index_def remove_at_def send_prepare_def on_error_def error_message_def)
  have e: "in_flight example_settled = []"
    by (simp add: example_settled_eval)
  have t: "\<not> send_rejected (app example_typed)"
    by (simp add: example_typed_def initial_def send_rejected_def trim_def isWhiteSpace_def
        str_def)
  note sending = placeholder_invariant [OF example_sending_reachable, of "Prepare 0 (Some NonError)"]
  note settled = placeholder_invariant [OF example_settled_reachable]
  note typed = placeholder_invariant [OF example_typed_reachable, where env = "example_env (Inl NonError)"]
  have u: "filter is_placeholder
        (transcript (fst (handleSend (example_env (Inl NonError)) (current_settings example_typed)
           (app example_typed)))) = []"
    using typed t by blast
  have "\<exists>entry \<in> set (transcript (app example_sending)). is_placeholder entry"
    using a by (simp add: list_ex_iff)
  then have f: "conversationState (app example_sending) = PROCESSING"
    using sending by blast
  have g: "length (filter is_placeholder (transcript (app example_sending))) \<le> 1"
    using sending by blast
  have h: "filter is_placeholder (transcript (app (fire (Prepare 0 (Some NonError)) example_sending))) = []"
    using sending d by blast
  have i: "filter is_placeholder (transcript (app example_settled)) = []"
    using settled e by blast
  show ?thesis
    using example_sending_reachable example_settled_reachable example_typed_reachable
      a b c d e f g h i t u
    by blast
qed

text \<open>
  C2. While the conversation state is \<open>PROCESSING\<close> a send is dropped: the session is the
  same after the event (transcript, input, attached files, state, sends in flight and calls
  made), and the run of \<open>handleSend\<close> returns the state it was given and makes no call. In
  every reachable session at most one send is in flight. Every accepted send ends in
  \<open>IDLE\<close>, whatever the outside world answered, and so does the session after any event
  that ends a send in flight.
\<close>

theorem one_send_in_flight:
  "(conversationState (app \<sigma>) = PROCESSING
      \<longrightarrow> fire Send \<sigma> = \<sigma> \<and> handleSend env (current_settings \<sigma>) (app \<sigma>) = (app \<sigma>, []))
   \<and> (reachable \<sigma> \<longrightarrow> length (in_flight \<sigma>) \<le> 1)
   \<and> (\<not> send_rejected s \<longrightarrow> conversationState (fst (handleSend env settings s)) = IDLE)
   \<and> (reachable \<sigma> \<and> length (in_flight (fire e \<sigma>)) < length (in_flight \<sigma>)
        \<longrightarrow> conversationState (app (fire e \<sigma>)) = IDLE)"
proof (intro conjI impI)
  assume "conversationState (app \<sigma>) = PROCESSING"
  then have r: "send_rejected (app \<sigma>)"
    by (simp add: send_rejected_def)
  show "fire Send \<sigma> = \<sigma>"
    using r by (simp add: send_begin_rejected)
  show "handleSend env (current_settings \<sigma>) (app \<sigma>) = (app \<sigma>, [])"
    using r by (rule handleSend_rejected)
next
  assume "reachable \<sigma>"
  then show "length (in_flight \<sigma>) \<le> 1"
    using reachable_inv by (auto simp: session_inv_def)
next
  assume "\<not> send_rejected s"
  then show "conversationState (fst (handleSend env settings s)) = IDLE"
    by (rule handleSend_ends_idle)
next
  assume a: "reachable \<sigma> \<and> length (in_flight (fire e \<sigma>)) < length (in_flight \<sigma>)"
  then have "session_inv \<sigma>" and inv': "session_inv (fire e \<sigma>)"
    using reachable_inv reachable.step by blast+
  then have "in_flight (fire e \<sigma>) = []"
    using a shorter_than_short [of "in_flight (fire e \<sigma>)" "in_flight \<sigma>"]
    by (simp add: session_inv_def)
  then show "conversationState (app (fire e \<sigma>)) = IDLE"
    using inv' by (simp add: session_inv_def)
qed

theorem one_send_in_flight_witness:
  "conversationState (app example_sending) = PROCESSING
   \<and> fire Send example_sending = example_sending
   \<and> handleSend (example_env (Inl NonError)) (current_settings example_sending)
        (app example_sending) = (app example_sending, [])
   \<and> reachable example_sending
   \<and> length (in_flight example_sending) \<le> 1
   \<and> \<not> send_rejected (example_state default_mode (str ''hi'') [])
   \<and> conversationState (fst (handleSend (example_env (Inl NonError)) defaultSettings
         (example_state default_mode (str ''hi'') []))) = IDLE
   \<and> length (in_flight (fire (Prepare 0 (Some NonError)) example_sending))
        < length (in_flight example_sending)
   \<and> conversationState (app (fire (Prepare 0 (Some NonError)) example_sending)) = IDLE
   \<and> inputText (app example_typed_again) = str ''again''
   \<and> conversationState (app example_typed_again) = PROCESSING
   \<and> fire Send example_typed_again = example_typed_again
   \<and> handleSend (example_env (Inr example_response)) (current_settings example_typed_again)
        (app example_typed_again) = (app example_typed_again, [])"
proof -
  have again: "inputText (app example_typed_again) = str ''again''"
    and busy: "conversationState (app example_typed_again) = PROCESSING"
    by (simp_all add: example_typed_again_def example_sending_eval)
  have dropped: "fire Send example_typed_again = example_typed_again
      \<and> handleSend (example_env (Inr example_response)) (current_settings example_typed_again)
          (app example_typed_again) = (app example_typed_again, [])"
    using one_send_in_flight [where \<sigma> = example_typed_again
        and env = "example_env (Inr example_response)"] busy
    by blast
  have a: "conversationState (app example_sending) = PROCESSING"
    by (simp add: example_sending_eval)
  have b: "\<not> send_rejected (example_state default_mode (str ''hi'') [])"
    by (simp add: example_state_def send_rejected_def trim_def isWhiteSpace_def str_def)
  have c: "length (in_flight (fire (Prepare 0 (Some NonError)) example_sending))
        < length (in_flight example_sending)"
    by (simp add: example_sending_eval at_index_def remove_at_def send_prepare_def)
  note inst = one_send_in_flight [where \<sigma> = example_sending and env = "example_env (Inl NonError)"
      and s = "example_state default_mode (str ''hi'') []" and settings = defaultSettings
      and e = "Prepare 0 (Some NonError)"]
  have d: "fire Send example_sending = example_sending
      \<and> handleSend (example_env (Inl NonError)) (current_settings example_sending)
          (app example_sending) = (app example_sending, [])"
    using inst a by blast
  have e: "length (in_flight example_sending) \<le> 1"
    using inst example_sending_reachable by blast
  have f: "conversationState (fst (handleSend (example_env (Inl NonError)) defaultSettings
         (example_state default_mode (str ''hi'') []))) = IDLE"
    using inst b by blast
  have g: "conversationState (app (fire (Prepare 0 (Some NonError)) example_sending)) = IDLE"
    using inst example_sending_reachable c by blast
  show ?thesis
    using example_sending_reachable a b c d e f g again busy dropped by blast
qed

end
